theory Spec2Isabelle
  imports Complex_Main "HOL-Library.List_Lexorder" "HOL-Library.Char_ord"
begin

section \<open>Errors and the document store\<close>

text \<open>
  Every \<^verbatim>\<open>raise HTTPException(status_code=..., detail=...)\<close> of the routes is a
  value of \<open>error\<close>. \<open>DuplicateKeyError\<close> is what the store raises when a write breaks a
  unique index created by \<^verbatim>\<open>startup_db_indexes\<close> (server.py), \<open>KeyError\<close> what
  Python raises on \<^verbatim>\<open>doc["field"]\<close> when the document has no such field.
\<close>

datatype error =
    HTTPException (status_code: nat) (detail: string)
  | DuplicateKeyError
  | KeyError string

definition NotFound :: "error \<Rightarrow> bool" where
  "NotFound e = (case e of HTTPException c _ \<Rightarrow> c = 404 | _ \<Rightarrow> False)"

definition Forbidden :: "error \<Rightarrow> bool" where
  "Forbidden e = (case e of HTTPException c _ \<Rightarrow> c = 403 | _ \<Rightarrow> False)"

definition AlreadyClosed :: "error \<Rightarrow> bool" where
  "AlreadyClosed e = (e = HTTPException 400 ''Trip is already closed'')"

text \<open>
  A collection is the list of its documents in insertion order. The queries of the
  routes are predicates on documents; \<^verbatim>\<open>find_one\<close>, \<^verbatim>\<open>update_one\<close> and
  \<^verbatim>\<open>delete_one\<close> act on the first document that matches,
  \<^verbatim>\<open>find(...).to_list(n)\<close> returns at most \<open>n\<close> matching documents.
\<close>

definition find_one :: "('a \<Rightarrow> bool) \<Rightarrow> 'a list \<Rightarrow> 'a option" where
  "find_one q xs = List.find q xs"

definition to_list :: "nat \<Rightarrow> 'a list \<Rightarrow> 'a list" where
  "to_list n xs = take n xs"

definition count_documents :: "('a \<Rightarrow> bool) \<Rightarrow> 'a list \<Rightarrow> nat" where
  "count_documents q xs = length (filter q xs)"

definition insert_one :: "'a \<Rightarrow> 'a list \<Rightarrow> 'a list" where
  "insert_one x xs = xs @ [x]"

text \<open>\<^verbatim>\<open>result.matched_count\<close> of \<^verbatim>\<open>update_one\<close> and \<^verbatim>\<open>result.deleted_count\<close>
  of \<^verbatim>\<open>delete_one\<close>: 1 when a document matches the query, else 0.\<close>

definition matched_count :: "('a \<Rightarrow> bool) \<Rightarrow> 'a list \<Rightarrow> nat" where
  "matched_count q xs = (if list_ex q xs then 1 else 0)"

fun update_one :: "('a \<Rightarrow> bool) \<Rightarrow> ('a \<Rightarrow> 'a) \<Rightarrow> 'a list \<Rightarrow> 'a list" where
  "update_one q f [] = []"
| "update_one q f (x # xs) = (if q x then f x # xs else x # update_one q f xs)"

definition update_many :: "('a \<Rightarrow> bool) \<Rightarrow> ('a \<Rightarrow> 'a) \<Rightarrow> 'a list \<Rightarrow> 'a list" where
  "update_many q f xs = map (\<lambda>x. if q x then f x else x) xs"

fun delete_one :: "('a \<Rightarrow> bool) \<Rightarrow> 'a list \<Rightarrow> 'a list" where
  "delete_one q [] = []"
| "delete_one q (x # xs) = (if q x then xs else x # delete_one q xs)"

definition delete_many :: "('a \<Rightarrow> bool) \<Rightarrow> 'a list \<Rightarrow> 'a list" where
  "delete_many q xs = filter (\<lambda>x. \<not> q x) xs"

text \<open>Python truthiness of an optional string field, as in
  \<^verbatim>\<open>if trip.get("locked_at")\<close>: absent, \<^verbatim>\<open>None\<close> and the empty string are false.\<close>

definition truthy :: "string option \<Rightarrow> bool" where
  "truthy v = (case v of None \<Rightarrow> False | Some s \<Rightarrow> s \<noteq> [])"

section \<open>Documents\<close>

datatype TripStatus = planning | loading | in_transit | delivered | closed

datatype ShipmentStatus = warehouse | staged | loaded | in_transit | delivered

datatype InvoiceStatus = draft | sent | paid | overdue

datatype ExpenseCategory = fuel | tolls | border_fees | repairs | food | accommodation | other

datatype PaymentMethod = cash | bank_transfer | mobile_money | other

datatype AuditAction = create | update | delete | status_change

text \<open>The user document that \<^verbatim>\<open>get_current_user\<close> returns; the routes read
  \<^verbatim>\<open>user["id"]\<close> and \<^verbatim>\<open>user.get("role")\<close>.\<close>

record user =
  u_id :: string
  u_role :: "string option"

record trip =
  t_id :: string
  t_tenant_id :: string
  t_trip_number :: string
  t_route :: "string list"
  t_departure_date :: string
  t_vehicle_id :: "string option"
  t_driver_id :: "string option"
  t_notes :: "string option"
  t_status :: TripStatus
  t_locked_at :: "string option"
  t_actual_departure :: "string option"
  t_actual_arrival :: "string option"
  t_created_by :: string
  t_created_at :: string

record shipment =
  s_id :: string
  s_tenant_id :: string
  s_client_id :: "string option"
  s_trip_id :: "string option"
  s_status :: ShipmentStatus
  s_description :: string
  s_destination :: string
  s_total_pieces :: int
  s_total_weight :: "real option"
  s_total_cbm :: "real option"
  s_created_by :: string
  s_created_at :: string

record shipment_piece =
  p_id :: string
  p_shipment_id :: string
  p_piece_number :: int
  p_weight :: real
  p_barcode :: string
  p_loaded_at :: "string option"

record trip_expense =
  e_id :: string
  e_trip_id :: string
  e_category :: ExpenseCategory
  e_amount :: real
  e_currency :: string
  e_expense_date :: string
  e_description :: "string option"
  e_receipt_url :: "string option"
  e_created_by :: string
  e_created_at :: string

text \<open>
  Invoices are written by two routes with different fields: \<^verbatim>\<open>create_invoice\<close>
  (server.py) stores \<^verbatim>\<open>adjustments\<close>, \<^verbatim>\<open>currency\<close> and no
  \<^verbatim>\<open>shipment_ids\<close>; \<^verbatim>\<open>generate_trip_invoices\<close> (trip_routes.py) stores
  \<^verbatim>\<open>shipment_ids\<close>, \<^verbatim>\<open>vat\<close>, \<^verbatim>\<open>issue_date\<close> and no
  \<^verbatim>\<open>adjustments\<close>. A field a document may lack is an option; a missing
  \<^verbatim>\<open>shipment_ids\<close> is the empty list (neither matches an \<^verbatim>\<open>$all\<close> query).
\<close>

record invoice =
  i_id :: string
  i_tenant_id :: string
  i_client_id :: string
  i_trip_id :: "string option"
  i_invoice_number :: string
  i_shipment_ids :: "string list"
  i_subtotal :: real
  i_adjustments :: "real option"
  i_vat :: "real option"
  i_total :: real
  i_status :: InvoiceStatus
  i_currency :: "string option"
  i_sent_at :: "string option"
  i_sent_by :: "string option"
  i_paid_at :: "string option"
  i_issue_date :: "string option"
  i_due_date :: string
  i_created_by :: "string option"
  i_created_at :: string

record invoice_line_item =
  li_id :: string
  li_invoice_id :: string
  li_shipment_id :: "string option"
  li_description :: string
  li_quantity :: int
  li_weight :: "real option"
  li_rate :: real
  li_amount :: real

record payment =
  pay_id :: string
  pay_tenant_id :: string
  pay_client_id :: string
  pay_invoice_id :: "string option"
  pay_amount :: real
  pay_payment_date :: string
  pay_payment_method :: PaymentMethod
  pay_reference :: "string option"
  pay_notes :: "string option"
  pay_created_by :: string
  pay_created_at :: string

record client =
  c_id :: string
  c_tenant_id :: string
  c_name :: string

record client_rate =
  cr_client_id :: string
  cr_rate_per_kg :: "real option"

text \<open>
  Modelled from the spec: \<^verbatim>\<open>create_audit_log\<close> (models/schemas.py is not among the
  source files). Section 6 of the specification gives its contract: it writes one record
  \<open>{tenant_id, user_id, action, table_name, record_id, old_value, new_value, timestamp,
  ip_address}\<close> after a mutating operation and touches nothing else. The snapshots and the
  address are left out of the record: no route reads them.
\<close>

record audit_log =
  a_tenant_id :: string
  a_user_id :: string
  a_action :: AuditAction
  a_table_name :: string
  a_record_id :: string
  a_created_at :: string

record db =
  trips :: "trip list"
  shipments :: "shipment list"
  shipment_pieces :: "shipment_piece list"
  trip_expenses :: "trip_expense list"
  invoices :: "invoice list"
  invoice_line_items :: "invoice_line_item list"
  payments :: "payment list"
  clients :: "client list"
  client_rates :: "client_rate list"
  audit_logs :: "audit_log list"

definition create_audit_log ::
  "string \<Rightarrow> string \<Rightarrow> AuditAction \<Rightarrow> string \<Rightarrow> string \<Rightarrow> string \<Rightarrow> db \<Rightarrow> db" where
  "create_audit_log tenant_id user_id action table_name record_id now d =
     d\<lparr>audit_logs := insert_one
        \<lparr>a_tenant_id = tenant_id, a_user_id = user_id, a_action = action,
         a_table_name = table_name, a_record_id = record_id, a_created_at = now\<rparr>
        (audit_logs d)\<rparr>"


text \<open>
  An operation returns its outcome together with the store it leaves: an exception does
  not undo the writes made before it.
\<close>

type_synonym 'a outcome = "(error + 'a) \<times> db"

section \<open>Trips (routes/trip\_routes.py)\<close>

record TripUpdate =
  tu_trip_number :: "string option"
  tu_route :: "string list option"
  tu_departure_date :: "string option"
  tu_vehicle_id :: "string option"
  tu_driver_id :: "string option"
  tu_notes :: "string option"
  tu_status :: "TripStatus option"

text \<open>\<^verbatim>\<open>update_dict\<close>: the keys of the request with a value other than
  \<^verbatim>\<open>None\<close>, and the timestamps the route adds. A key that is not in the dictionary
  is \<open>None\<close> here.\<close>

record trip_update_dict =
  ud_trip_number :: "string option"
  ud_route :: "string list option"
  ud_departure_date :: "string option"
  ud_vehicle_id :: "string option"
  ud_driver_id :: "string option"
  ud_notes :: "string option"
  ud_status :: "TripStatus option"
  ud_locked_at :: "string option"
  ud_actual_departure :: "string option"
  ud_actual_arrival :: "string option"

definition trip_update_dict_of :: "TripUpdate \<Rightarrow> trip_update_dict" where
  "trip_update_dict_of u =
     \<lparr>ud_trip_number = tu_trip_number u, ud_route = tu_route u,
      ud_departure_date = tu_departure_date u, ud_vehicle_id = tu_vehicle_id u,
      ud_driver_id = tu_driver_id u, ud_notes = tu_notes u, ud_status = tu_status u,
      ud_locked_at = None, ud_actual_departure = None, ud_actual_arrival = None\<rparr>"

definition trip_update_dict_nonempty :: "trip_update_dict \<Rightarrow> bool" where
  "trip_update_dict_nonempty u =
     (ud_trip_number u \<noteq> None \<or> ud_route u \<noteq> None \<or> ud_departure_date u \<noteq> None \<or>
      ud_vehicle_id u \<noteq> None \<or> ud_driver_id u \<noteq> None \<or> ud_notes u \<noteq> None \<or>
      ud_status u \<noteq> None \<or> ud_locked_at u \<noteq> None \<or> ud_actual_departure u \<noteq> None \<or>
      ud_actual_arrival u \<noteq> None)"

text \<open>\<^verbatim>\<open>{"$set": update_dict}\<close> on a trip document.\<close>

definition set_trip :: "trip_update_dict \<Rightarrow> trip \<Rightarrow> trip" where
  "set_trip u t =
     t\<lparr>t_trip_number := (case ud_trip_number u of None \<Rightarrow> t_trip_number t | Some v \<Rightarrow> v),
       t_route := (case ud_route u of None \<Rightarrow> t_route t | Some v \<Rightarrow> v),
       t_departure_date := (case ud_departure_date u of None \<Rightarrow> t_departure_date t | Some v \<Rightarrow> v),
       t_vehicle_id := (case ud_vehicle_id u of None \<Rightarrow> t_vehicle_id t | Some v \<Rightarrow> Some v),
       t_driver_id := (case ud_driver_id u of None \<Rightarrow> t_driver_id t | Some v \<Rightarrow> Some v),
       t_notes := (case ud_notes u of None \<Rightarrow> t_notes t | Some v \<Rightarrow> Some v),
       t_status := (case ud_status u of None \<Rightarrow> t_status t | Some v \<Rightarrow> v),
       t_locked_at := (case ud_locked_at u of None \<Rightarrow> t_locked_at t | Some v \<Rightarrow> Some v),
       t_actual_departure :=
         (case ud_actual_departure u of None \<Rightarrow> t_actual_departure t | Some v \<Rightarrow> Some v),
       t_actual_arrival :=
         (case ud_actual_arrival u of None \<Rightarrow> t_actual_arrival t | Some v \<Rightarrow> Some v)\<rparr>"

definition trip_query :: "string \<Rightarrow> string \<Rightarrow> trip \<Rightarrow> bool" where
  "trip_query trip_id tenant_id t = (t_id t = trip_id \<and> t_tenant_id t = tenant_id)"

definition trip_number_taken :: "string \<Rightarrow> string \<Rightarrow> trip \<Rightarrow> trip_update_dict \<Rightarrow> db \<Rightarrow> bool" where
  "trip_number_taken trip_id tenant_id trip update_dict d =
     (case ud_trip_number update_dict of
        None \<Rightarrow> False
      | Some n \<Rightarrow>
          n \<noteq> t_trip_number trip \<and>
          find_one (\<lambda>t. t_tenant_id t = tenant_id \<and> t_trip_number t = n \<and> t_id t \<noteq> trip_id)
            (trips d) \<noteq> None)"

definition stamp_locked_at :: "trip \<Rightarrow> string \<Rightarrow> trip_update_dict \<Rightarrow> trip_update_dict" where
  "stamp_locked_at trip now u =
     (if ud_status u = Some closed \<and> t_status trip \<noteq> closed
      then u\<lparr>ud_locked_at := Some now\<rparr> else u)"

definition stamp_actual_departure :: "trip \<Rightarrow> string \<Rightarrow> trip_update_dict \<Rightarrow> trip_update_dict" where
  "stamp_actual_departure trip now u =
     (if ud_status u = Some TripStatus.in_transit \<and> t_status trip \<noteq> TripStatus.in_transit
      then (if \<not> truthy (t_actual_departure trip) then u\<lparr>ud_actual_departure := Some now\<rparr> else u)
      else u)"

definition stamp_actual_arrival :: "trip \<Rightarrow> string \<Rightarrow> trip_update_dict \<Rightarrow> trip_update_dict" where
  "stamp_actual_arrival trip now u =
     (if ud_status u = Some TripStatus.delivered \<and> t_status trip \<noteq> TripStatus.delivered
      then (if \<not> truthy (t_actual_arrival trip) then u\<lparr>ud_actual_arrival := Some now\<rparr> else u)
      else u)"

text \<open>\<^verbatim>\<open>update_trip\<close> of trip\_routes.py; \<open>now\<close> is
  \<^verbatim>\<open>datetime.now(timezone.utc).isoformat()\<close>. It returns the trip re-read after the
  write.\<close>

definition update_trip ::
  "string \<Rightarrow> TripUpdate \<Rightarrow> string \<Rightarrow> user \<Rightarrow> string \<Rightarrow> db \<Rightarrow> trip option outcome" where
  "update_trip trip_id update_data tenant_id usr now d =
     (case find_one (trip_query trip_id tenant_id) (trips d) of
        None \<Rightarrow> (Inl (HTTPException 404 ''Trip not found''), d)
      | Some trip \<Rightarrow>
          if truthy (t_locked_at trip) \<and> u_role usr \<noteq> Some ''owner''
          then (Inl (HTTPException 403 ''Trip is locked. Only owner can modify.''), d)
          else
            let update_dict = trip_update_dict_of update_data in
            if trip_number_taken trip_id tenant_id trip update_dict d
            then (Inl (HTTPException 400 ''Trip number already exists for this tenant''), d)
            else
              let action = (if ud_status update_dict \<noteq> None then status_change else update);
                  update_dict = stamp_locked_at trip now update_dict;
                  update_dict = stamp_actual_departure trip now update_dict;
                  update_dict = stamp_actual_arrival trip now update_dict;
                  d1 = (if trip_update_dict_nonempty update_dict
                        then d\<lparr>trips := update_one (trip_query trip_id tenant_id)
                                           (set_trip update_dict) (trips d)\<rparr>
                        else d);
                  new_trip = find_one (trip_query trip_id tenant_id) (trips d1);
                  d2 = create_audit_log tenant_id (u_id usr) action ''trips'' trip_id now d1
              in (Inr new_trip, d2))"

text \<open>\<^verbatim>\<open>update_trip\<close> of server.py: the same route without the departure and
  arrival timestamps and without the audit log.\<close>

definition server_update_trip ::
  "string \<Rightarrow> TripUpdate \<Rightarrow> string \<Rightarrow> user \<Rightarrow> string \<Rightarrow> db \<Rightarrow> trip option outcome" where
  "server_update_trip trip_id update_data tenant_id usr now d =
     (case find_one (trip_query trip_id tenant_id) (trips d) of
        None \<Rightarrow> (Inl (HTTPException 404 ''Trip not found''), d)
      | Some trip \<Rightarrow>
          if truthy (t_locked_at trip) \<and> u_role usr \<noteq> Some ''owner''
          then (Inl (HTTPException 403 ''Trip is locked. Only owner can modify.''), d)
          else
            let update_dict = trip_update_dict_of update_data in
            if trip_number_taken trip_id tenant_id trip update_dict d
            then (Inl (HTTPException 400 ''Trip number already exists for this tenant''), d)
            else
              let update_dict = stamp_locked_at trip now update_dict;
                  d1 = (if trip_update_dict_nonempty update_dict
                        then d\<lparr>trips := update_one (trip_query trip_id tenant_id)
                                           (set_trip update_dict) (trips d)\<rparr>
                        else d)
              in (Inr (find_one (trip_query trip_id tenant_id) (trips d1)), d1))"

text \<open>\<^verbatim>\<open>{"$set": {"trip_id": None, "status": "warehouse"}}\<close> on a shipment.\<close>

definition to_warehouse :: "shipment \<Rightarrow> shipment" where
  "to_warehouse s = s\<lparr>s_trip_id := None, s_status := warehouse\<rparr>"

text \<open>\<^verbatim>\<open>delete_trip\<close> of server.py, and of trip\_routes.py, which adds the audit
  log.\<close>

definition server_delete_trip :: "string \<Rightarrow> string \<Rightarrow> user \<Rightarrow> db \<Rightarrow> unit outcome" where
  "server_delete_trip trip_id tenant_id usr d =
     (case find_one (trip_query trip_id tenant_id) (trips d) of
        None \<Rightarrow> (Inl (HTTPException 404 ''Trip not found''), d)
      | Some trip \<Rightarrow>
          if truthy (t_locked_at trip) \<and> u_role usr \<noteq> Some ''owner''
          then (Inl (HTTPException 403 ''Cannot delete locked trip''), d)
          else
            let d1 = d\<lparr>shipments := update_many
                         (\<lambda>s. s_trip_id s = Some trip_id \<and> s_tenant_id s = tenant_id)
                         to_warehouse (shipments d)\<rparr>;
                d2 = d1\<lparr>trip_expenses := delete_many (\<lambda>e. e_trip_id e = trip_id) (trip_expenses d1)\<rparr>;
                d3 = d2\<lparr>trips := delete_one (trip_query trip_id tenant_id) (trips d2)\<rparr>
            in (Inr (), d3))"

definition delete_trip :: "string \<Rightarrow> string \<Rightarrow> user \<Rightarrow> string \<Rightarrow> db \<Rightarrow> unit outcome" where
  "delete_trip trip_id tenant_id usr now d =
     (case server_delete_trip trip_id tenant_id usr d of
        (Inl e, d') \<Rightarrow> (Inl e, d')
      | (Inr u, d') \<Rightarrow>
          (Inr u, create_audit_log tenant_id (u_id usr) delete ''trips'' trip_id now d'))"

text \<open>\<^verbatim>\<open>close_trip\<close>; it returns \<^verbatim>\<open>locked_at\<close>. Its write selects the trip by
  \<^verbatim>\<open>{"id": trip_id}\<close> alone.\<close>

definition close_trip :: "string \<Rightarrow> string \<Rightarrow> user \<Rightarrow> string \<Rightarrow> db \<Rightarrow> string outcome" where
  "close_trip trip_id tenant_id usr now d =
     (if u_role usr \<noteq> Some ''owner''
      then (Inl (HTTPException 403 ''Only owner can close trips''), d)
      else
        case find_one (trip_query trip_id tenant_id) (trips d) of
          None \<Rightarrow> (Inl (HTTPException 404 ''Trip not found''), d)
        | Some trip \<Rightarrow>
            if truthy (t_locked_at trip)
            then (Inl (HTTPException 400 ''Trip is already closed''), d)
            else
              let d1 = d\<lparr>trips := update_one (\<lambda>t. t_id t = trip_id)
                                     (\<lambda>t. t\<lparr>t_status := closed, t_locked_at := Some now\<rparr>) (trips d)\<rparr>;
                  d2 = create_audit_log tenant_id (u_id usr) update ''trips'' trip_id now d1
              in (Inr now, d2))"

section \<open>Shipments (server.py)\<close>

record ShipmentUpdate =
  su_description :: "string option"
  su_destination :: "string option"
  su_total_pieces :: "int option"
  su_total_weight :: "real option"
  su_total_cbm :: "real option"
  su_status :: "ShipmentStatus option"
  su_trip_id :: "string option"

text \<open>The request's keys with a value other than \<^verbatim>\<open>None\<close> are the update
  dictionary; it is empty when every field of the request is \<open>None\<close>.\<close>

definition shipment_update_nonempty :: "ShipmentUpdate \<Rightarrow> bool" where
  "shipment_update_nonempty u =
     (su_description u \<noteq> None \<or> su_destination u \<noteq> None \<or> su_total_pieces u \<noteq> None \<or>
      su_total_weight u \<noteq> None \<or> su_total_cbm u \<noteq> None \<or> su_status u \<noteq> None \<or>
      su_trip_id u \<noteq> None)"

definition set_shipment :: "ShipmentUpdate \<Rightarrow> shipment \<Rightarrow> shipment" where
  "set_shipment u s =
     s\<lparr>s_description := (case su_description u of None \<Rightarrow> s_description s | Some v \<Rightarrow> v),
       s_destination := (case su_destination u of None \<Rightarrow> s_destination s | Some v \<Rightarrow> v),
       s_total_pieces := (case su_total_pieces u of None \<Rightarrow> s_total_pieces s | Some v \<Rightarrow> v),
       s_total_weight := (case su_total_weight u of None \<Rightarrow> s_total_weight s | Some v \<Rightarrow> Some v),
       s_total_cbm := (case su_total_cbm u of None \<Rightarrow> s_total_cbm s | Some v \<Rightarrow> Some v),
       s_status := (case su_status u of None \<Rightarrow> s_status s | Some v \<Rightarrow> v),
       s_trip_id := (case su_trip_id u of None \<Rightarrow> s_trip_id s | Some v \<Rightarrow> Some v)\<rparr>"

definition shipment_query :: "string \<Rightarrow> string \<Rightarrow> shipment \<Rightarrow> bool" where
  "shipment_query shipment_id tenant_id s = (s_id s = shipment_id \<and> s_tenant_id s = tenant_id)"

definition update_shipment ::
  "string \<Rightarrow> ShipmentUpdate \<Rightarrow> string \<Rightarrow> db \<Rightarrow> shipment option outcome" where
  "update_shipment shipment_id update_data tenant_id d =
     (if shipment_update_nonempty update_data
      then
        (if matched_count (shipment_query shipment_id tenant_id) (shipments d) = 0
         then (Inl (HTTPException 404 ''Shipment not found''), d)
         else
           let d1 = d\<lparr>shipments := update_one (shipment_query shipment_id tenant_id)
                                      (set_shipment update_data) (shipments d)\<rparr>
           in (Inr (find_one (shipment_query shipment_id tenant_id) (shipments d1)), d1))
      else (Inr (find_one (shipment_query shipment_id tenant_id) (shipments d)), d))"

section \<open>Fields an update leaves alone\<close>

text \<open>
  What an update of a trip with request \<open>u\<close> may not do to a stored trip \<open>t\<close>, whose
  value afterwards is \<open>t'\<close>: a field the request leaves \<^verbatim>\<open>None\<close> keeps its value,
  the fields no request carries (id, tenant, creator, creation time) keep theirs, the
  three timestamps move only when the request carries a status, and no field that had a
  value loses it.
\<close>

definition trip_fields_kept :: "TripUpdate \<Rightarrow> trip \<Rightarrow> trip \<Rightarrow> bool" where
  "trip_fields_kept u t t' =
    ((tu_trip_number u = None \<longrightarrow> t_trip_number t' = t_trip_number t) \<and>
     (tu_route u = None \<longrightarrow> t_route t' = t_route t) \<and>
     (tu_departure_date u = None \<longrightarrow> t_departure_date t' = t_departure_date t) \<and>
     (tu_vehicle_id u = None \<longrightarrow> t_vehicle_id t' = t_vehicle_id t) \<and>
     (tu_driver_id u = None \<longrightarrow> t_driver_id t' = t_driver_id t) \<and>
     (tu_notes u = None \<longrightarrow> t_notes t' = t_notes t) \<and>
     (tu_status u = None \<longrightarrow> t_status t' = t_status t) \<and>
     (tu_status u = None \<longrightarrow> t_locked_at t' = t_locked_at t \<and>
        t_actual_departure t' = t_actual_departure t \<and>
        t_actual_arrival t' = t_actual_arrival t) \<and>
     t_id t' = t_id t \<and> t_tenant_id t' = t_tenant_id t \<and>
     t_created_by t' = t_created_by t \<and> t_created_at t' = t_created_at t \<and>
     (t_vehicle_id t \<noteq> None \<longrightarrow> t_vehicle_id t' \<noteq> None) \<and>
     (t_driver_id t \<noteq> None \<longrightarrow> t_driver_id t' \<noteq> None) \<and>
     (t_notes t \<noteq> None \<longrightarrow> t_notes t' \<noteq> None) \<and>
     (t_locked_at t \<noteq> None \<longrightarrow> t_locked_at t' \<noteq> None) \<and>
     (t_actual_departure t \<noteq> None \<longrightarrow> t_actual_departure t' \<noteq> None) \<and>
     (t_actual_arrival t \<noteq> None \<longrightarrow> t_actual_arrival t' \<noteq> None))"

definition shipment_fields_kept :: "ShipmentUpdate \<Rightarrow> shipment \<Rightarrow> shipment \<Rightarrow> bool" where
  "shipment_fields_kept u s s' =
    ((su_description u = None \<longrightarrow> s_description s' = s_description s) \<and>
     (su_destination u = None \<longrightarrow> s_destination s' = s_destination s) \<and>
     (su_total_pieces u = None \<longrightarrow> s_total_pieces s' = s_total_pieces s) \<and>
     (su_total_weight u = None \<longrightarrow> s_total_weight s' = s_total_weight s) \<and>
     (su_total_cbm u = None \<longrightarrow> s_total_cbm s' = s_total_cbm s) \<and>
     (su_status u = None \<longrightarrow> s_status s' = s_status s) \<and>
     (su_trip_id u = None \<longrightarrow> s_trip_id s' = s_trip_id s) \<and>
     s_id s' = s_id s \<and> s_tenant_id s' = s_tenant_id s \<and> s_client_id s' = s_client_id s \<and>
     s_created_by s' = s_created_by s \<and> s_created_at s' = s_created_at s \<and>
     (s_total_weight s \<noteq> None \<longrightarrow> s_total_weight s' \<noteq> None) \<and>
     (s_total_cbm s \<noteq> None \<longrightarrow> s_total_cbm s' \<noteq> None) \<and>
     (s_trip_id s \<noteq> None \<longrightarrow> s_trip_id s' \<noteq> None))"

section \<open>Trip expenses (routes/trip\_routes.py)\<close>

record TripExpenseCreate =
  ec_category :: ExpenseCategory
  ec_amount :: real
  ec_currency :: string
  ec_expense_date :: string
  ec_description :: "string option"
  ec_receipt_url :: "string option"

record TripExpenseUpdate =
  eu_category :: "ExpenseCategory option"
  eu_amount :: "real option"
  eu_currency :: "string option"
  eu_expense_date :: "string option"
  eu_description :: "string option"
  eu_receipt_url :: "string option"

definition expense_update_nonempty :: "TripExpenseUpdate \<Rightarrow> bool" where
  "expense_update_nonempty u =
     (eu_category u \<noteq> None \<or> eu_amount u \<noteq> None \<or> eu_currency u \<noteq> None \<or>
      eu_expense_date u \<noteq> None \<or> eu_description u \<noteq> None \<or> eu_receipt_url u \<noteq> None)"

definition set_expense :: "TripExpenseUpdate \<Rightarrow> trip_expense \<Rightarrow> trip_expense" where
  "set_expense u e =
     e\<lparr>e_category := (case eu_category u of None \<Rightarrow> e_category e | Some v \<Rightarrow> v),
       e_amount := (case eu_amount u of None \<Rightarrow> e_amount e | Some v \<Rightarrow> v),
       e_currency := (case eu_currency u of None \<Rightarrow> e_currency e | Some v \<Rightarrow> v),
       e_expense_date := (case eu_expense_date u of None \<Rightarrow> e_expense_date e | Some v \<Rightarrow> v),
       e_description := (case eu_description u of None \<Rightarrow> e_description e | Some v \<Rightarrow> Some v),
       e_receipt_url := (case eu_receipt_url u of None \<Rightarrow> e_receipt_url e | Some v \<Rightarrow> Some v)\<rparr>"

definition expense_query :: "string \<Rightarrow> string \<Rightarrow> trip_expense \<Rightarrow> bool" where
  "expense_query expense_id trip_id e = (e_id e = expense_id \<and> e_trip_id e = trip_id)"

text \<open>\<^verbatim>\<open>create_trip_expense\<close>; \<open>new_id\<close> is the \<^verbatim>\<open>uuid4\<close> of the new document. The
  route looks the trip up and reads nothing else of it.\<close>

definition create_trip_expense ::
  "string \<Rightarrow> TripExpenseCreate \<Rightarrow> string \<Rightarrow> user \<Rightarrow> string \<Rightarrow> string \<Rightarrow> db
     \<Rightarrow> trip_expense outcome" where
  "create_trip_expense trip_id expense_data tenant_id usr new_id now d =
     (case find_one (trip_query trip_id tenant_id) (trips d) of
        None \<Rightarrow> (Inl (HTTPException 404 ''Trip not found''), d)
      | Some trip \<Rightarrow>
          let expense =
                \<lparr>e_id = new_id, e_trip_id = trip_id, e_category = ec_category expense_data,
                 e_amount = ec_amount expense_data, e_currency = ec_currency expense_data,
                 e_expense_date = ec_expense_date expense_data,
                 e_description = ec_description expense_data,
                 e_receipt_url = ec_receipt_url expense_data,
                 e_created_by = u_id usr, e_created_at = now\<rparr>
          in (Inr expense, d\<lparr>trip_expenses := insert_one expense (trip_expenses d)\<rparr>))"

definition update_trip_expense ::
  "string \<Rightarrow> string \<Rightarrow> TripExpenseUpdate \<Rightarrow> string \<Rightarrow> user \<Rightarrow> db
     \<Rightarrow> trip_expense option outcome" where
  "update_trip_expense trip_id expense_id update_data tenant_id usr d =
     (case find_one (trip_query trip_id tenant_id) (trips d) of
        None \<Rightarrow> (Inl (HTTPException 404 ''Trip not found''), d)
      | Some trip \<Rightarrow>
          if truthy (t_locked_at trip) \<and> u_role usr \<noteq> Some ''owner''
          then (Inl (HTTPException 403 ''Trip is locked. Only owner can edit expenses.''), d)
          else if expense_update_nonempty update_data
          then
            (if matched_count (expense_query expense_id trip_id) (trip_expenses d) = 0
             then (Inl (HTTPException 404 ''Expense not found''), d)
             else
               let d1 = d\<lparr>trip_expenses := update_one (expense_query expense_id trip_id)
                                               (set_expense update_data) (trip_expenses d)\<rparr>
               in (Inr (find_one (expense_query expense_id trip_id) (trip_expenses d1)), d1))
          else (Inr (find_one (expense_query expense_id trip_id) (trip_expenses d)), d))"

definition delete_trip_expense :: "string \<Rightarrow> string \<Rightarrow> string \<Rightarrow> user \<Rightarrow> db \<Rightarrow> unit outcome" where
  "delete_trip_expense trip_id expense_id tenant_id usr d =
     (case find_one (trip_query trip_id tenant_id) (trips d) of
        None \<Rightarrow> (Inl (HTTPException 404 ''Trip not found''), d)
      | Some trip \<Rightarrow>
          if truthy (t_locked_at trip) \<and> u_role usr \<noteq> Some ''owner''
          then (Inl (HTTPException 403 ''Trip is locked. Only owner can delete expenses.''), d)
          else if matched_count (expense_query expense_id trip_id) (trip_expenses d) = 0
          then (Inl (HTTPException 404 ''Expense not found''), d)
          else (Inr (), d\<lparr>trip_expenses :=
                             delete_one (expense_query expense_id trip_id) (trip_expenses d)\<rparr>))"

section \<open>Barcodes\<close>

text \<open>\<^verbatim>\<open>str(n)\<close> of a natural number, \<^verbatim>\<open>s.zfill(w)\<close> of a string of digits, and
  the format \<^verbatim>\<open>{n:0wd}\<close> of an integer, whose sign counts in the width.\<close>

definition string_digits :: string where
  "string_digits = ''0123456789''"

fun str_nat :: "nat \<Rightarrow> string" where
  "str_nat n =
     (if n < 10 then [string_digits ! n] else str_nat (n div 10) @ [string_digits ! (n mod 10)])"

definition zfill :: "nat \<Rightarrow> string \<Rightarrow> string" where
  "zfill w s = replicate (w - length s) (CHR ''0'') @ s"

definition format_d :: "nat \<Rightarrow> int \<Rightarrow> string" where
  "format_d w n =
     (if 0 \<le> n then zfill w (str_nat (nat n)) else CHR ''-'' # zfill (w - 1) (str_nat (nat (- n))))"

text \<open>
  The random source is a tape of natural numbers: \<^verbatim>\<open>random.choices(population, k=k)\<close>
  reads its first \<open>k\<close> entries, each picking an element of the population, and the tape
  moves on by \<open>k\<close>. Every outcome of the generator is the reading of some tape.
\<close>

type_synonym rng = "nat \<Rightarrow> nat"

definition random_choices :: "rng \<Rightarrow> 'a list \<Rightarrow> nat \<Rightarrow> 'a list" where
  "random_choices r population k = map (\<lambda>i. population ! (r i mod length population)) [0..<k]"

definition advance :: "nat \<Rightarrow> rng \<Rightarrow> rng" where
  "advance k r = (\<lambda>i. r (i + k))"

text \<open>\<^verbatim>\<open>generate_barcode\<close> (server.py; trip\_routes.py imports it from
  services/barcode\_service). \<^verbatim>\<open>if trip_number\<close> is Python truthiness.\<close>

definition generate_barcode :: "rng \<Rightarrow> string option \<Rightarrow> nat \<Rightarrow> int \<Rightarrow> string \<times> rng" where
  "generate_barcode r trip_number shipment_seq piece_number =
     (case trip_number of
        Some tn \<Rightarrow>
          if tn \<noteq> []
          then (tn @ ''-'' @ format_d 3 (int shipment_seq) @ ''-'' @ format_d 2 piece_number, r)
          else (''TEMP-'' @ random_choices r string_digits 6, advance 6 r)
      | None \<Rightarrow> (''TEMP-'' @ random_choices r string_digits 6, advance 6 r))"

text \<open>\<^verbatim>\<open>f"TEMP-{uuid.uuid4().hex[:8].upper()}"\<close> of
  \<^verbatim>\<open>remove_parcel_from_trip\<close>: eight random hexadecimal digits in upper case.\<close>

definition temp_barcode :: "rng \<Rightarrow> string \<times> rng" where
  "temp_barcode r = (''TEMP-'' @ random_choices r ''0123456789ABCDEF'' 8, advance 8 r)"

text \<open>
  \<^verbatim>\<open>db.shipment_pieces.update_one({"id": piece_id}, {"$set": {"barcode": bc}})\<close>
  under the unique index on \<^verbatim>\<open>barcode\<close>: the write is refused when another document
  already carries the barcode.
\<close>

definition set_barcode ::
  "string \<Rightarrow> string \<Rightarrow> shipment_piece list \<Rightarrow> error + shipment_piece list" where
  "set_barcode piece_id bc ps =
     (case find_one (\<lambda>p. p_id p = piece_id) ps of
        None \<Rightarrow> Inr ps
      | Some p \<Rightarrow>
          if bc \<in> set (map p_barcode (delete_one (\<lambda>p. p_id p = piece_id) ps))
          then Inl DuplicateKeyError
          else Inr (update_one (\<lambda>p. p_id p = piece_id) (\<lambda>p. p\<lparr>p_barcode := bc\<rparr>) ps))"

text \<open>
  The loop \<^verbatim>\<open>for piece in pieces: new_barcode = ...; update_one(...)\<close> of the three
  routes below, which differ in the barcode they generate (\<open>gen\<close>). An exception ends the
  loop and keeps the writes made so far.
\<close>

fun write_barcodes ::
  "(rng \<Rightarrow> shipment_piece \<Rightarrow> string \<times> rng) \<Rightarrow> rng \<Rightarrow> shipment_piece list
     \<Rightarrow> shipment_piece list \<Rightarrow> error option \<times> shipment_piece list" where
  "write_barcodes gen r [] coll = (None, coll)"
| "write_barcodes gen r (piece # pieces) coll =
     (case set_barcode (p_id piece) (fst (gen r piece)) coll of
        Inl e \<Rightarrow> (Some e, coll)
      | Inr coll' \<Rightarrow> write_barcodes gen (snd (gen r piece)) pieces coll')"

section \<open>Assigning shipments to trips (routes/trip\_routes.py)\<close>

definition pieces_of :: "string \<Rightarrow> db \<Rightarrow> shipment_piece list" where
  "pieces_of shipment_id d =
     to_list 100 (filter (\<lambda>p. p_shipment_id p = shipment_id) (shipment_pieces d))"

definition assign_shipment_to_trip ::
  "string \<Rightarrow> string \<Rightarrow> string \<Rightarrow> rng \<Rightarrow> db \<Rightarrow> unit outcome" where
  "assign_shipment_to_trip trip_id shipment_id tenant_id r d =
     (case find_one (trip_query trip_id tenant_id) (trips d) of
        None \<Rightarrow> (Inl (HTTPException 404 ''Trip not found''), d)
      | Some trip \<Rightarrow>
          if truthy (t_locked_at trip)
          then (Inl (HTTPException 403 ''Cannot modify shipments on a locked trip''), d)
          else if matched_count (shipment_query shipment_id tenant_id) (shipments d) = 0
          then (Inl (HTTPException 404 ''Shipment not found''), d)
          else
            let d1 = d\<lparr>shipments := update_one (shipment_query shipment_id tenant_id)
                         (\<lambda>s. s\<lparr>s_trip_id := Some trip_id, s_status := staged\<rparr>) (shipments d)\<rparr>;
                pieces = pieces_of shipment_id d1;
                shipment_count = count_documents
                  (\<lambda>s. s_tenant_id s = tenant_id \<and> s_trip_id s = Some trip_id) (shipments d1);
                (err, coll) = write_barcodes
                  (\<lambda>r piece. generate_barcode r (Some (t_trip_number trip)) shipment_count
                                (p_piece_number piece))
                  r pieces (shipment_pieces d1)
            in ((case err of Some e \<Rightarrow> Inl e | None \<Rightarrow> Inr ()), d1\<lparr>shipment_pieces := coll\<rparr>))"

definition unassign_shipment_from_trip ::
  "string \<Rightarrow> string \<Rightarrow> string \<Rightarrow> rng \<Rightarrow> db \<Rightarrow> unit outcome" where
  "unassign_shipment_from_trip trip_id shipment_id tenant_id r d =
     (case find_one (trip_query trip_id tenant_id) (trips d) of
        None \<Rightarrow> (Inl (HTTPException 404 ''Trip not found''), d)
      | Some trip \<Rightarrow>
          if truthy (t_locked_at trip)
          then (Inl (HTTPException 403 ''Cannot modify shipments on a locked trip''), d)
          else if matched_count
                    (\<lambda>s. shipment_query shipment_id tenant_id s \<and> s_trip_id s = Some trip_id)
                    (shipments d) = 0
          then (Inl (HTTPException 404 ''Shipment not found or not assigned to this trip''), d)
          else
            let d1 = d\<lparr>shipments := update_one
                         (\<lambda>s. shipment_query shipment_id tenant_id s \<and> s_trip_id s = Some trip_id)
                         to_warehouse (shipments d)\<rparr>;
                pieces = pieces_of shipment_id d1;
                (err, coll) = write_barcodes
                  (\<lambda>r piece. generate_barcode r None 0 (p_piece_number piece))
                  r pieces (shipment_pieces d1)
            in ((case err of Some e \<Rightarrow> Inl e | None \<Rightarrow> Inr ()), d1\<lparr>shipment_pieces := coll\<rparr>))"

text \<open>\<^verbatim>\<open>remove_parcel_from_trip\<close>: the second route that takes a shipment off a
  trip. It finds and updates the parcel without the tenant, writes its own form of
  temporary barcode, and logs the change.\<close>

definition remove_parcel_from_trip ::
  "string \<Rightarrow> string \<Rightarrow> string \<Rightarrow> user \<Rightarrow> string \<Rightarrow> rng \<Rightarrow> db \<Rightarrow> unit outcome" where
  "remove_parcel_from_trip trip_id parcel_id tenant_id usr now r d =
     (case find_one (trip_query trip_id tenant_id) (trips d) of
        None \<Rightarrow> (Inl (HTTPException 404 ''Trip not found''), d)
      | Some trip \<Rightarrow>
          if truthy (t_locked_at trip)
          then (Inl (HTTPException 403 ''Cannot modify closed trip''), d)
          else
            case find_one (\<lambda>s. s_id s = parcel_id \<and> s_trip_id s = Some trip_id) (shipments d) of
              None \<Rightarrow> (Inl (HTTPException 404 ''Parcel not found on this trip''), d)
            | Some parcel \<Rightarrow>
                let d1 = d\<lparr>shipments := update_one (\<lambda>s. s_id s = parcel_id) to_warehouse
                                           (shipments d)\<rparr>;
                    pieces = pieces_of parcel_id d1;
                    (err, coll) = write_barcodes (\<lambda>r piece. temp_barcode r) r pieces
                                    (shipment_pieces d1);
                    d2 = d1\<lparr>shipment_pieces := coll\<rparr>
                in (case err of
                      Some e \<Rightarrow> (Inl e, d2)
                    | None \<Rightarrow>
                        (Inr (), create_audit_log tenant_id (u_id usr) update ''shipments''
                                   parcel_id now d2)))"

section \<open>Temporary barcodes and unique identifiers\<close>

text \<open>The form \<^verbatim>\<open>TEMP-\<close> followed by exactly six decimal digits, and the form
  \<^verbatim>\<open>TEMP-\<close> followed by exactly eight upper-case hexadecimal digits.\<close>

definition is_temp_barcode :: "string \<Rightarrow> bool" where
  "is_temp_barcode bc =
     (take 5 bc = ''TEMP-'' \<and> length (drop 5 bc) = 6 \<and>
      list_all (\<lambda>c. c \<in> set string_digits) (drop 5 bc))"

definition is_temp_hex_barcode :: "string \<Rightarrow> bool" where
  "is_temp_hex_barcode bc =
     (take 5 bc = ''TEMP-'' \<and> length (drop 5 bc) = 8 \<and>
      list_all (\<lambda>c. c \<in> set ''0123456789ABCDEF'') (drop 5 bc))"

text \<open>Identifiers are \<^verbatim>\<open>uuid4\<close> strings: no two shipments, pieces or invoices of a
  store share one.\<close>

definition unique_ids :: "db \<Rightarrow> bool" where
  "unique_ids d =
     (distinct (map s_id (shipments d)) \<and> distinct (map p_id (shipment_pieces d)) \<and>
      distinct (map i_id (invoices d)))"

section \<open>Invoices and payments (server.py)\<close>



record PaymentCreate =
  pc_client_id :: string
  pc_invoice_id :: "string option"
  pc_amount :: real
  pc_payment_date :: string
  pc_payment_method :: PaymentMethod
  pc_reference :: "string option"
  pc_notes :: "string option"

definition invoice_query :: "string \<Rightarrow> string \<Rightarrow> invoice \<Rightarrow> bool" where
  "invoice_query invoice_id tenant_id i = (i_id i = invoice_id \<and> i_tenant_id i = tenant_id)"

text \<open>The overdue test of both read routes: \<^verbatim>\<open>invoice["status"] not in ["paid",
  "overdue"] and invoice["due_date"] < today\<close>, a comparison of strings.\<close>

definition is_past_due :: "string \<Rightarrow> invoice \<Rightarrow> bool" where
  "is_past_due today i = (i_status i \<noteq> paid \<and> i_status i \<noteq> overdue \<and> i_due_date i < today)"

text \<open>The sum over \<^verbatim>\<open>db.payments.find({"invoice_id": id}).to_list(100)\<close> that
  \<^verbatim>\<open>create_payment\<close> and \<^verbatim>\<open>delete_payment\<close> compare with the total, and the sum
  over \<^verbatim>\<open>db.invoice_line_items.find({"invoice_id": id}).to_list(100)\<close> that becomes
  the subtotal: each reads at most 100 documents.\<close>

definition total_paid :: "string \<Rightarrow> db \<Rightarrow> real" where
  "total_paid invoice_id d =
     sum_list (map pay_amount
       (to_list 100 (filter (\<lambda>p. pay_invoice_id p = Some invoice_id) (payments d))))"








text \<open>\<^verbatim>\<open>create_payment\<close>. After the insert the invoice is read again and written by
  \<^verbatim>\<open>{"id": ...}\<close> alone; the first lookup has shown that one exists.\<close>

definition create_payment ::
  "PaymentCreate \<Rightarrow> string \<Rightarrow> user \<Rightarrow> string \<Rightarrow> string \<Rightarrow> db \<Rightarrow> payment outcome" where
  "create_payment payment_data tenant_id usr new_id now d =
     (case find_one (\<lambda>c. c_id c = pc_client_id payment_data \<and> c_tenant_id c = tenant_id)
             (clients d) of
        None \<Rightarrow> (Inl (HTTPException 404 ''Client not found''), d)
      | Some client \<Rightarrow>
          if truthy (pc_invoice_id payment_data) \<and>
             find_one (invoice_query (the (pc_invoice_id payment_data)) tenant_id) (invoices d) = None
          then (Inl (HTTPException 404 ''Invoice not found''), d)
          else
            let payment =
                  \<lparr>pay_id = new_id, pay_tenant_id = tenant_id,
                   pay_client_id = pc_client_id payment_data,
                   pay_invoice_id = pc_invoice_id payment_data,
                   pay_amount = pc_amount payment_data,
                   pay_payment_date = pc_payment_date payment_data,
                   pay_payment_method = pc_payment_method payment_data,
                   pay_reference = pc_reference payment_data, pay_notes = pc_notes payment_data,
                   pay_created_by = u_id usr, pay_created_at = now\<rparr>;
                d1 = d\<lparr>payments := insert_one payment (payments d)\<rparr>
            in if truthy (pc_invoice_id payment_data)
               then
                 (let invoice_id = the (pc_invoice_id payment_data) in
                  case find_one (\<lambda>i. i_id i = invoice_id) (invoices d1) of
                    None \<Rightarrow> (Inl (KeyError ''total''), d1)
                  | Some invoice \<Rightarrow>
                      if total_paid invoice_id d1 \<ge> i_total invoice
                      then (Inr payment,
                            d1\<lparr>invoices := update_one (\<lambda>i. i_id i = invoice_id)
                                  (\<lambda>i. i\<lparr>i_status := paid, i_paid_at := Some now\<rparr>) (invoices d1)\<rparr>)
                      else (Inr payment, d1))
               else (Inr payment, d1))"

text \<open>\<^verbatim>\<open>delete_payment\<close>; \<open>today\<close> is
  \<^verbatim>\<open>datetime.now(timezone.utc).strftime("%Y-%m-%d")\<close>.\<close>

definition delete_payment :: "string \<Rightarrow> string \<Rightarrow> user \<Rightarrow> string \<Rightarrow> db \<Rightarrow> unit outcome" where
  "delete_payment payment_id tenant_id usr today d =
     (if u_role usr \<noteq> Some ''owner'' \<and> u_role usr \<noteq> Some ''finance''
      then (Inl (HTTPException 403 ''Only owner/finance can delete payments''), d)
      else
        case find_one (\<lambda>p. pay_id p = payment_id \<and> pay_tenant_id p = tenant_id) (payments d) of
          None \<Rightarrow> (Inl (HTTPException 404 ''Payment not found''), d)
        | Some payment \<Rightarrow>
            let d1 = d\<lparr>payments := delete_one
                         (\<lambda>p. pay_id p = payment_id \<and> pay_tenant_id p = tenant_id) (payments d)\<rparr>
            in if truthy (pay_invoice_id payment)
               then
                 (let invoice_id = the (pay_invoice_id payment) in
                  case find_one (\<lambda>i. i_id i = invoice_id) (invoices d1) of
                    None \<Rightarrow> (Inr (), d1)
                  | Some invoice \<Rightarrow>
                      if i_status invoice = paid \<and> total_paid invoice_id d1 < i_total invoice
                      then
                        (let new_status = (if i_due_date invoice < today then overdue else sent)
                         in (Inr (),
                             d1\<lparr>invoices := update_one (\<lambda>i. i_id i = invoice_id)
                                   (\<lambda>i. i\<lparr>i_status := new_status, i_paid_at := None\<rparr>)
                                   (invoices d1)\<rparr>))
                      else (Inr (), d1))
               else (Inr (), d1))"

text \<open>The string a status is stored as, which the \<^verbatim>\<open>status\<close> filter of
  \<^verbatim>\<open>list_invoices\<close> is compared with.\<close>

fun status_value :: "InvoiceStatus \<Rightarrow> string" where
  "status_value draft = ''draft''"
| "status_value sent = ''sent''"
| "status_value paid = ''paid''"
| "status_value overdue = ''overdue''"

text \<open>\<^verbatim>\<open>.sort(field, -1)\<close>: descending in the field (the order among equal keys is
  the store's).\<close>

definition sort_desc :: "('a \<Rightarrow> string) \<Rightarrow> 'a list \<Rightarrow> 'a list" where
  "sort_desc f xs = rev (sort_key f xs)"

definition list_invoices_query :: "string option \<Rightarrow> string option \<Rightarrow> string \<Rightarrow> invoice \<Rightarrow> bool" where
  "list_invoices_query status client_id tenant_id i =
     (i_tenant_id i = tenant_id \<and>
      (truthy status \<and> status \<noteq> Some ''all'' \<longrightarrow> Some (status_value (i_status i)) = status) \<and>
      (truthy client_id \<longrightarrow> Some (i_client_id i) = client_id))"

text \<open>The documents \<^verbatim>\<open>list_invoices\<close> reads: at most 500, newest first.\<close>

definition listed_invoices :: "string option \<Rightarrow> string option \<Rightarrow> string \<Rightarrow> db \<Rightarrow> invoice list" where
  "listed_invoices status client_id tenant_id d =
     to_list 500 (sort_desc i_created_at
       (filter (list_invoices_query status client_id tenant_id) (invoices d)))"

definition set_overdue :: "invoice \<Rightarrow> invoice" where
  "set_overdue i = i\<lparr>i_status := overdue\<rparr>"

text \<open>The loop of \<^verbatim>\<open>list_invoices\<close> over the documents read: an invoice past its
  due date is written as overdue, by \<^verbatim>\<open>{"id": invoice["id"]}\<close>, and reported so; each
  is reported with its client's name.\<close>

fun flag_overdue :: "string \<Rightarrow> invoice list \<Rightarrow> db \<Rightarrow> (invoice \<times> string) list \<times> db" where
  "flag_overdue today [] d = ([], d)"
| "flag_overdue today (invoice # rest) d =
     (let d1 = (if is_past_due today invoice
                then d\<lparr>invoices := update_one (\<lambda>i. i_id i = i_id invoice) set_overdue (invoices d)\<rparr>
                else d);
          reported = (if is_past_due today invoice then set_overdue invoice else invoice);
          client_name = (case find_one (\<lambda>c. c_id c = i_client_id invoice) (clients d1) of
                           Some c \<Rightarrow> c_name c | None \<Rightarrow> ''Unknown'');
          (out, d2) = flag_overdue today rest d1
      in ((reported, client_name) # out, d2))"

definition list_invoices ::
  "string option \<Rightarrow> string option \<Rightarrow> string \<Rightarrow> string \<Rightarrow> db \<Rightarrow> (invoice \<times> string) list \<times> db" where
  "list_invoices status client_id tenant_id today d =
     flag_overdue today (listed_invoices status client_id tenant_id d) d"

record invoice_view =
  v_invoice :: invoice
  v_line_items :: "invoice_line_item list"
  v_payments :: "payment list"
  v_total_paid :: real
  v_balance_due :: real
  v_client :: "client option"

definition get_invoice :: "string \<Rightarrow> string \<Rightarrow> string \<Rightarrow> db \<Rightarrow> invoice_view outcome" where
  "get_invoice invoice_id tenant_id today d =
     (case find_one (invoice_query invoice_id tenant_id) (invoices d) of
        None \<Rightarrow> (Inl (HTTPException 404 ''Invoice not found''), d)
      | Some invoice \<Rightarrow>
          let line_items = to_list 100
                (filter (\<lambda>i. li_invoice_id i = invoice_id) (invoice_line_items d));
              pays = to_list 100 (sort_desc pay_payment_date
                (filter (\<lambda>p. pay_invoice_id p = Some invoice_id \<and> pay_tenant_id p = tenant_id)
                   (payments d)));
              paid_sum = sum_list (map pay_amount pays);
              client = find_one (\<lambda>c. c_id c = i_client_id invoice) (clients d);
              d1 = (if is_past_due today invoice
                    then d\<lparr>invoices := update_one (\<lambda>i. i_id i = invoice_id) set_overdue (invoices d)\<rparr>
                    else d);
              reported = (if is_past_due today invoice then set_overdue invoice else invoice)
          in (Inr \<lparr>v_invoice = reported, v_line_items = line_items, v_payments = pays,
                   v_total_paid = paid_sum, v_balance_due = i_total reported - paid_sum,
                   v_client = client\<rparr>, d1))"

section \<open>Invoices of a trip (routes/trip\_routes.py)\<close>

text \<open>The loop that groups the parcels by client: a dictionary in insertion order, a
  parcel without a client (\<^verbatim>\<open>None\<close> or empty) left out.\<close>

definition add_parcel :: "(string \<times> shipment list) list \<Rightarrow> shipment \<Rightarrow> (string \<times> shipment list) list" where
  "add_parcel client_parcels parcel =
     (case s_client_id parcel of
        None \<Rightarrow> client_parcels
      | Some client_id \<Rightarrow>
          if client_id = [] then client_parcels
          else if client_id \<in> set (map fst client_parcels)
          then map (\<lambda>(k, v). if k = client_id then (k, v @ [parcel]) else (k, v)) client_parcels
          else client_parcels @ [(client_id, [parcel])])"

definition group_by_client :: "shipment list \<Rightarrow> (string \<times> shipment list) list" where
  "group_by_client parcels = foldl add_parcel [] parcels"

text \<open>\<^verbatim>\<open>{"tenant_id": ..., "client_id": ..., "shipment_ids": {"$all": shipment_ids}}\<close>:
  the invoice's array holds every one of the given identifiers (an empty list of
  identifiers matches no document).\<close>

definition invoice_covers :: "string \<Rightarrow> string \<Rightarrow> string list \<Rightarrow> invoice \<Rightarrow> bool" where
  "invoice_covers tenant_id client_id shipment_ids i =
     (i_tenant_id i = tenant_id \<and> i_client_id i = client_id \<and> shipment_ids \<noteq> [] \<and>
      list_all (\<lambda>x. x \<in> set (i_shipment_ids i)) shipment_ids)"

text \<open>\<^verbatim>\<open>round(x, 2)\<close> on the reals (the source rounds a binary float).\<close>

definition round2 :: "real \<Rightarrow> real" where
  "round2 x = real_of_int (round (x * 100)) / 100"

text \<open>\<^verbatim>\<open>f"INV-{year}-{str(count + 1).zfill(4)}"\<close>.\<close>

definition invoice_number_for :: "nat \<Rightarrow> nat \<Rightarrow> string" where
  "invoice_number_for year count = ''INV-'' @ str_nat year @ ''-'' @ zfill 4 (str_nat (count + 1))"

text \<open>What the route reports for an invoice it created.\<close>

record created_invoice =
  ci_invoice_number :: string
  ci_client_name :: string
  ci_total :: real

text \<open>The amounts of a client group: the weight of its shipments
  (\<^verbatim>\<open>s.get("total_weight", 0) or 0\<close>) times the client's rate
  (\<^verbatim>\<open>rate.get("rate_per_kg", 50) if rate else 50\<close>), and 15 percent VAT.\<close>

definition group_subtotal :: "string \<Rightarrow> shipment list \<Rightarrow> db \<Rightarrow> real" where
  "group_subtotal client_id client_shipments d =
     (let total_weight = sum_list
            (map (\<lambda>s. case s_total_weight s of None \<Rightarrow> 0 | Some w \<Rightarrow> w) client_shipments);
          rate = find_one (\<lambda>r. cr_client_id r = client_id) (client_rates d);
          rate_per_kg = (case rate of
                           None \<Rightarrow> 50
                         | Some r \<Rightarrow> (case cr_rate_per_kg r of None \<Rightarrow> 50 | Some v \<Rightarrow> v))
      in total_weight * rate_per_kg)"

text \<open>The invoice document of a client group and its line in the report. \<open>year\<close> is
  \<^verbatim>\<open>datetime.now().year\<close>, \<open>now\<close> and \<open>due\<close> are the current time and the time 30
  days later in ISO format, \<open>new_id\<close> the \<^verbatim>\<open>uuid4\<close> drawn; the number counts every
  invoice of the tenant.\<close>

definition trip_invoice ::
  "string \<Rightarrow> string \<Rightarrow> user \<Rightarrow> nat \<Rightarrow> string \<Rightarrow> string \<Rightarrow> string \<Rightarrow> string \<Rightarrow> shipment list
     \<Rightarrow> db \<Rightarrow> invoice" where
  "trip_invoice trip_id tenant_id usr year now due new_id client_id client_shipments d =
     (let count = count_documents (\<lambda>i. i_tenant_id i = tenant_id) (invoices d);
          subtotal = group_subtotal client_id client_shipments d;
          vat = subtotal * 0.15;
          total = subtotal + vat
      in \<lparr>i_id = new_id, i_tenant_id = tenant_id, i_client_id = client_id,
          i_trip_id = Some trip_id, i_invoice_number = invoice_number_for year count,
          i_shipment_ids = map s_id client_shipments, i_subtotal = round2 subtotal,
          i_adjustments = None, i_vat = Some (round2 vat), i_total = round2 total,
          i_status = draft, i_currency = None, i_sent_at = None, i_sent_by = None,
          i_paid_at = None, i_issue_date = Some now, i_due_date = due,
          i_created_by = Some (u_id usr), i_created_at = now\<rparr>)"

definition invoice_report :: "nat \<Rightarrow> string \<Rightarrow> string \<Rightarrow> shipment list \<Rightarrow> db \<Rightarrow> created_invoice" where
  "invoice_report year tenant_id client_id client_shipments d =
     (let client = find_one (\<lambda>c. c_id c = client_id) (clients d);
          count = count_documents (\<lambda>i. i_tenant_id i = tenant_id) (invoices d);
          subtotal = group_subtotal client_id client_shipments d
      in \<lparr>ci_invoice_number = invoice_number_for year count,
          ci_client_name = (case client of None \<Rightarrow> ''Unknown'' | Some c \<Rightarrow> c_name c),
          ci_total = subtotal + subtotal * 0.15\<rparr>)"

text \<open>
  The loop over the client groups: a group that an invoice of the client already covers
  is skipped, any other gets an invoice. \<open>uuids k\<close> is the \<^verbatim>\<open>uuid4\<close> of the \<open>k\<close>-th
  invoice created, \<open>created\<close> the report so far. The insert is refused under the unique
  index on \<^verbatim>\<open>(tenant_id, invoice_number)\<close>.
\<close>

fun invoice_groups ::
  "string \<Rightarrow> string \<Rightarrow> user \<Rightarrow> nat \<Rightarrow> string \<Rightarrow> string \<Rightarrow> (nat \<Rightarrow> string)
     \<Rightarrow> (string \<times> shipment list) list \<Rightarrow> created_invoice list \<Rightarrow> db
     \<Rightarrow> (error + created_invoice list) \<times> db" where
  "invoice_groups trip_id tenant_id usr year now due uuids [] created d = (Inr created, d)"
| "invoice_groups trip_id tenant_id usr year now due uuids ((client_id, client_shipments) # rest)
     created d =
     (if find_one (invoice_covers tenant_id client_id (map s_id client_shipments)) (invoices d)
           \<noteq> None
      then invoice_groups trip_id tenant_id usr year now due uuids rest created d
      else
        let invoice = trip_invoice trip_id tenant_id usr year now due (uuids (length created))
                        client_id client_shipments d
        in if list_ex (\<lambda>i. i_tenant_id i = tenant_id \<and>
                            i_invoice_number i = i_invoice_number invoice) (invoices d)
           then (Inl DuplicateKeyError, d)
           else invoice_groups trip_id tenant_id usr year now due uuids rest
                  (created @ [invoice_report year tenant_id client_id client_shipments d])
                  (d\<lparr>invoices := insert_one invoice (invoices d)\<rparr>))"

definition trip_parcels :: "string \<Rightarrow> string \<Rightarrow> db \<Rightarrow> shipment list" where
  "trip_parcels trip_id tenant_id d =
     to_list 500 (filter (\<lambda>s. s_trip_id s = Some trip_id \<and> s_tenant_id s = tenant_id) (shipments d))"

definition generate_trip_invoices ::
  "string \<Rightarrow> string \<Rightarrow> user \<Rightarrow> nat \<Rightarrow> string \<Rightarrow> string \<Rightarrow> (nat \<Rightarrow> string) \<Rightarrow> db
     \<Rightarrow> created_invoice list outcome" where
  "generate_trip_invoices trip_id tenant_id usr year now due uuids d =
     (case find_one (trip_query trip_id tenant_id) (trips d) of
        None \<Rightarrow> (Inl (HTTPException 404 ''Trip not found''), d)
      | Some trip \<Rightarrow>
          invoice_groups trip_id tenant_id usr year now due uuids
            (group_by_client (trip_parcels trip_id tenant_id d)) [] d)"

section \<open>A small store\<close>

text \<open>One tenant with an open trip \<open>T1\<close> (number S12) and a closed trip \<open>T2\<close>, a
  shipment of two pieces on \<open>T1\<close>, one on \<open>T2\<close> and one in the warehouse, and an
  expense on each trip.\<close>

definition ex_owner :: user where
  "ex_owner = \<lparr>u_id = ''U1'', u_role = Some ''owner''\<rparr>"

definition ex_manager :: user where
  "ex_manager = \<lparr>u_id = ''U2'', u_role = Some ''manager''\<rparr>"

definition ex_trip :: trip where
  "ex_trip =
     \<lparr>t_id = ''T1'', t_tenant_id = ''ten'', t_trip_number = ''S12'',
      t_route = [''Johannesburg'', ''Harare''], t_departure_date = ''2025-06-01'',
      t_vehicle_id = Some ''V1'', t_driver_id = None, t_notes = None, t_status = planning,
      t_locked_at = None, t_actual_departure = None, t_actual_arrival = None,
      t_created_by = ''U1'', t_created_at = ''2025-05-01T08:00:00+00:00''\<rparr>"

definition ex_closed_trip :: trip where
  "ex_closed_trip =
     ex_trip\<lparr>t_id := ''T2'', t_trip_number := ''S13'', t_status := closed,
       t_locked_at := Some ''2025-05-20T10:00:00+00:00''\<rparr>"

definition ex_shipment :: shipment where
  "ex_shipment =
     \<lparr>s_id = ''SH1'', s_tenant_id = ''ten'', s_client_id = Some ''C1'', s_trip_id = Some ''T1'',
      s_status = staged, s_description = ''boxes'', s_destination = ''Harare'',
      s_total_pieces = 2, s_total_weight = Some 10, s_total_cbm = None,
      s_created_by = ''U1'', s_created_at = ''2025-05-02T08:00:00+00:00''\<rparr>"

definition ex_shipment2 :: shipment where
  "ex_shipment2 = ex_shipment\<lparr>s_id := ''SH2'', s_trip_id := None, s_status := warehouse\<rparr>"

definition ex_shipment3 :: shipment where
  "ex_shipment3 = ex_shipment\<lparr>s_id := ''SH3'', s_trip_id := Some ''T2'', s_status := loaded\<rparr>"

definition ex_piece :: shipment_piece where
  "ex_piece =
     \<lparr>p_id = ''P1'', p_shipment_id = ''SH1'', p_piece_number = 1, p_weight = 4,
      p_barcode = ''S12-001-01'', p_loaded_at = None\<rparr>"

definition ex_piece2 :: shipment_piece where
  "ex_piece2 = ex_piece\<lparr>p_id := ''P2'', p_piece_number := 2, p_barcode := ''S12-001-02''\<rparr>"

definition ex_piece3 :: shipment_piece where
  "ex_piece3 = ex_piece\<lparr>p_id := ''P3'', p_shipment_id := ''SH2'', p_barcode := ''TEMP-493021''\<rparr>"

definition ex_expense :: trip_expense where
  "ex_expense =
     \<lparr>e_id = ''E1'', e_trip_id = ''T1'', e_category = fuel, e_amount = 900, e_currency = ''ZAR'',
      e_expense_date = ''2025-06-01'', e_description = None, e_receipt_url = None,
      e_created_by = ''U1'', e_created_at = ''2025-06-01T09:00:00+00:00''\<rparr>"

definition ex_expense2 :: trip_expense where
  "ex_expense2 = ex_expense\<lparr>e_id := ''E2'', e_trip_id := ''T2'', e_category := tolls\<rparr>"

definition ex_db :: db where
  "ex_db =
     \<lparr>trips = [ex_trip, ex_closed_trip],
      shipments = [ex_shipment, ex_shipment2, ex_shipment3],
      shipment_pieces = [ex_piece, ex_piece2, ex_piece3],
      trip_expenses = [ex_expense, ex_expense2],
      invoices = [], invoice_line_items = [], payments = [],
      clients = [\<lparr>c_id = ''C1'', c_tenant_id = ''ten'', c_name = ''Acme''\<rparr>],
      client_rates = [], audit_logs = []\<rparr>"

definition ex_trip_update :: TripUpdate where
  "ex_trip_update =
     \<lparr>tu_trip_number = None, tu_route = None, tu_departure_date = None, tu_vehicle_id = None,
      tu_driver_id = None, tu_notes = Some ''call ahead'', tu_status = Some TripStatus.in_transit\<rparr>"

definition ex_shipment_update :: ShipmentUpdate where
  "ex_shipment_update =
     \<lparr>su_description = None, su_destination = Some ''Bulawayo'', su_total_pieces = None,
      su_total_weight = None, su_total_cbm = None, su_status = None, su_trip_id = None\<rparr>"

lemmas ex_defs =
  ex_db_def ex_trip_def ex_closed_trip_def ex_shipment_def ex_shipment2_def ex_shipment3_def
  ex_piece_def ex_piece2_def ex_piece3_def ex_expense_def ex_expense2_def ex_owner_def
  ex_manager_def

text \<open>A request that only sets the status to \<^verbatim>\<open>closed\<close>, and requests on expenses.\<close>

definition ex_close_update :: TripUpdate where
  "ex_close_update =
     \<lparr>tu_trip_number = None, tu_route = None, tu_departure_date = None, tu_vehicle_id = None,
      tu_driver_id = None, tu_notes = None, tu_status = Some closed\<rparr>"

definition ex_expense_create :: TripExpenseCreate where
  "ex_expense_create =
     \<lparr>ec_category = food, ec_amount = 120, ec_currency = ''ZAR'', ec_expense_date = ''2025-06-02'',
      ec_description = None, ec_receipt_url = None\<rparr>"

definition ex_expense_update :: TripExpenseUpdate where
  "ex_expense_update =
     \<lparr>eu_category = None, eu_amount = Some 950, eu_currency = None, eu_expense_date = None,
      eu_description = None, eu_receipt_url = None\<rparr>"

text \<open>The store after the warehouse shipment \<open>SH2\<close> is assigned to trip \<open>T1\<close> as its
  second shipment, and after it is taken off again by each of the two routes.\<close>

definition ex_assigned :: db where
  "ex_assigned =
     ex_db\<lparr>shipments :=
             [ex_shipment, ex_shipment2\<lparr>s_trip_id := Some ''T1'', s_status := staged\<rparr>,
              ex_shipment3],
           shipment_pieces := [ex_piece, ex_piece2, ex_piece3\<lparr>p_barcode := ''S12-002-01''\<rparr>]\<rparr>"

definition ex_unassigned :: db where
  "ex_unassigned =
     ex_db\<lparr>shipment_pieces := [ex_piece, ex_piece2, ex_piece3\<lparr>p_barcode := ''TEMP-123456''\<rparr>]\<rparr>"

definition ex_removed :: db where
  "ex_removed =
     ex_db\<lparr>shipment_pieces := [ex_piece, ex_piece2, ex_piece3\<lparr>p_barcode := ''TEMP-ABCDEF01''\<rparr>],
           audit_logs :=
             [\<lparr>a_tenant_id = ''ten'', a_user_id = ''U2'', a_action = update,
               a_table_name = ''shipments'', a_record_id = ''SH2'',
               a_created_at = ''2025-06-04T00:00:00+00:00''\<rparr>]\<rparr>"

text \<open>Invoices: the one \<^verbatim>\<open>generate_trip_invoices\<close> creates for trip \<open>T1\<close> in 2025
  (10 kg at the fallback rate of 50), one of the year before, and one that covers more
  shipments than the client's group on \<open>T1\<close>.\<close>

definition ex_invoice :: invoice where
  "ex_invoice =
     \<lparr>i_id = ''I1'', i_tenant_id = ''ten'', i_client_id = ''C1'', i_trip_id = Some ''T1'',
      i_invoice_number = ''INV-2025-0001'', i_shipment_ids = [''SH1''], i_subtotal = 500,
      i_adjustments = None, i_vat = Some 75, i_total = 575, i_status = draft,
      i_currency = None, i_sent_at = None, i_sent_by = None, i_paid_at = None,
      i_issue_date = Some ''2025-06-10T09:00:00+00:00'', i_due_date = ''2025-07-10T09:00:00+00:00'',
      i_created_by = Some ''U1'', i_created_at = ''2025-06-10T09:00:00+00:00''\<rparr>"

definition ex_old_invoice :: invoice where
  "ex_old_invoice =
     ex_invoice\<lparr>i_id := ''I0'', i_trip_id := None, i_invoice_number := ''INV-2024-0001'',
       i_shipment_ids := [''SH0''], i_status := paid,
       i_issue_date := Some ''2024-03-01T09:00:00+00:00'',
       i_due_date := ''2024-03-31T09:00:00+00:00'',
       i_created_at := ''2024-03-01T09:00:00+00:00''\<rparr>"

definition ex_wide_invoice :: invoice where
  "ex_wide_invoice =
     ex_invoice\<lparr>i_id := ''I9'', i_trip_id := None, i_invoice_number := ''INV-2025-0009'',
       i_shipment_ids := [''SH1'', ''SH2'']\<rparr>"

definition ex_uuids :: "nat \<Rightarrow> string" where
  "ex_uuids k = ''I'' @ str_nat (k + 1)"



definition ex_line :: "nat \<Rightarrow> invoice_line_item" where
  "ex_line k =
     \<lparr>li_id = ''L'' @ str_nat k, li_invoice_id = ''I5'', li_shipment_id = None,
      li_description = ''handling'', li_quantity = 1, li_weight = None, li_rate = 1,
      li_amount = 1\<rparr>"



definition ex_payment_create :: PaymentCreate where
  "ex_payment_create =
     \<lparr>pc_client_id = ''C1'', pc_invoice_id = Some ''I6'', pc_amount = 1,
      pc_payment_date = ''2025-06-01'', pc_payment_method = cash, pc_reference = None,
      pc_notes = None\<rparr>"




section \<open>The store's operations\<close>

lemma length_update_one [simp]: "length (update_one q f xs) = length xs"
  by (induction xs) auto

lemma update_one_nth:
  "i < length xs \<Longrightarrow> update_one q f xs ! i = xs ! i \<or> update_one q f xs ! i = f (xs ! i)"
proof (induction xs arbitrary: i)
  case Nil then show ?case by simp
next
  case (Cons x xs)
  then show ?case by (cases i) auto
qed

lemma update_one_nth_cases:
  assumes "i < length xs" and "P (xs ! i)" and "P (f (xs ! i))"
  shows "P (update_one q f xs ! i)"
  using update_one_nth [OF assms(1), of q f] assms(2,3) by auto

lemma length_update_many [simp]: "length (update_many q f xs) = length xs"
  by (simp add: update_many_def)

lemma nth_update_many:
  "i < length xs \<Longrightarrow> update_many q f xs ! i = (if q (xs ! i) then f (xs ! i) else xs ! i)"
  by (simp add: update_many_def)

lemma find_one_Some_ex: "find_one q xs = Some x \<Longrightarrow> list_ex q xs"
  by (auto simp: find_one_def list_ex_iff find_Some_iff)

lemma length_delete_one: "list_ex q xs \<Longrightarrow> Suc (length (delete_one q xs)) = length xs"
  by (induction xs) auto


lemma find_one_update_one:
  assumes "find_one q xs = Some x" and "q (f x)"
  shows "find_one q (update_one q f xs) = Some (f x)"
  using assms unfolding find_one_def by (induction xs) (auto split: if_splits)

lemma matched_count_0_iff: "matched_count q xs = 0 \<longleftrightarrow> \<not> list_ex q xs"
  by (simp add: matched_count_def)

lemma find_one_Some_q: "find_one q xs = Some x \<Longrightarrow> q x"
  by (auto simp: find_one_def find_Some_iff)


lemma update_one_distinct_key:
  assumes "distinct (map key xs)" and "\<And>x. x \<in> set xs \<Longrightarrow> q x \<Longrightarrow> key x = k"
    and "\<And>x. x \<in> set xs \<Longrightarrow> key x = k \<Longrightarrow> list_ex q xs \<Longrightarrow> q x"
  shows "update_one q f xs = map (\<lambda>x. if key x = k \<and> list_ex q xs then f x else x) xs"
  using assms
proof (induction xs)
  case Nil
  then show ?case by simp
next
  case (Cons a xs)
  show ?case
  proof (cases "q a")
    case True
    then have ka: "key a = k" using Cons.prems(2) by simp
    have "\<forall>x \<in> set xs. key x \<noteq> k" using Cons.prems(1) ka by (auto simp: image_iff)
    then have "map (\<lambda>x. if key x = k \<and> list_ex q (a # xs) then f x else x) xs = xs"
      by (simp add: map_idI)
    then show ?thesis using True ka by simp
  next
    case False
    have na: "key a \<noteq> k \<or> \<not> list_ex q (a # xs)"
      using Cons.prems(3) [of a] False by auto
    have ex: "list_ex q (a # xs) = list_ex q xs" using False by simp
    have "update_one q f xs = map (\<lambda>x. if key x = k \<and> list_ex q xs then f x else x) xs"
    proof (rule Cons.IH)
      show "distinct (map key xs)" using Cons.prems(1) by simp
      show "\<And>x. x \<in> set xs \<Longrightarrow> q x \<Longrightarrow> key x = k" using Cons.prems(2) by simp
      show "\<And>x. x \<in> set xs \<Longrightarrow> key x = k \<Longrightarrow> list_ex q xs \<Longrightarrow> q x"
        using Cons.prems(3) ex by simp
    qed
    then show ?thesis using False na ex by auto
  qed
qed

lemma update_one_by_key:
  assumes "distinct (map key xs)"
  shows "update_one (\<lambda>x. key x = k) f xs = map (\<lambda>x. if key x = k then f x else x) xs"
proof -
  have "update_one (\<lambda>x. key x = k) f xs =
        map (\<lambda>x. if key x = k \<and> list_ex (\<lambda>x. key x = k) xs then f x else x) xs"
    by (rule update_one_distinct_key [OF assms]) auto
  also have "\<dots> = map (\<lambda>x. if key x = k then f x else x) xs"
    by (rule map_cong) (auto simp: list_ex_iff)
  finally show ?thesis .
qed

lemma map_update_one_key:
  assumes "\<And>x. key (f x) = key x"
  shows "map key (update_one q f xs) = map key xs"
  by (induction xs) (simp_all add: assms)

lemma find_one_None_update_one: "find_one q xs = None \<Longrightarrow> update_one q f xs = xs"
  unfolding find_one_def by (induction xs) (auto split: if_splits)

lemma map_filter_key_cong:
  "map k xs = map k ys \<Longrightarrow> map k (filter (\<lambda>x. Q (k x)) xs) = map k (filter (\<lambda>x. Q (k x)) ys)"
proof (induction xs arbitrary: ys)
  case Nil
  then show ?case by simp
next
  case (Cons x xs)
  then obtain y ys' where ys: "ys = y # ys'" by (cases ys) auto
  with Cons.prems have "k x = k y" and "map k xs = map k ys'" by simp_all
  with Cons.IH [of ys'] ys show ?case by simp
qed

section \<open>Writing barcodes\<close>

lemma length_random_choices [simp]: "length (random_choices r pop k) = k"
  by (simp add: random_choices_def)

lemma set_random_choices:
  assumes "pop \<noteq> []"
  shows "set (random_choices r pop k) \<subseteq> set pop"
proof
  fix x assume "x \<in> set (random_choices r pop k)"
  then obtain i where "x = pop ! (r i mod length pop)"
    by (auto simp: random_choices_def)
  moreover have "r i mod length pop < length pop"
    using assms by simp
  ultimately show "x \<in> set pop" by simp
qed

lemma is_temp_barcodeI:
  "length ds = 6 \<Longrightarrow> set ds \<subseteq> set string_digits \<Longrightarrow> is_temp_barcode (''TEMP-'' @ ds)"
  by (simp add: is_temp_barcode_def list_all_iff subset_iff)

lemma is_temp_hex_barcodeI:
  "length ds = 8 \<Longrightarrow> set ds \<subseteq> set ''0123456789ABCDEF''
     \<Longrightarrow> is_temp_hex_barcode (''TEMP-'' @ ds)"
  by (simp only: is_temp_hex_barcode_def list_all_iff subset_iff) simp

lemma string_digits_nonempty: "string_digits \<noteq> []"
  by (simp add: string_digits_def)

lemma is_temp_generate_barcode: "is_temp_barcode (fst (generate_barcode r None 0 n))"
proof -
  have "fst (generate_barcode r None 0 n) = ''TEMP-'' @ random_choices r string_digits 6"
    by (simp add: generate_barcode_def)
  moreover have "is_temp_barcode (''TEMP-'' @ random_choices r string_digits 6)"
    by (intro is_temp_barcodeI set_random_choices string_digits_nonempty) simp
  ultimately show ?thesis by (simp only:)
qed

lemma is_temp_hex_temp_barcode: "is_temp_hex_barcode (fst (temp_barcode r))"
proof -
  have "set (random_choices r ''0123456789ABCDEF'' 8) \<subseteq> set ''0123456789ABCDEF''"
    by (rule set_random_choices) simp
  then show ?thesis
    unfolding temp_barcode_def fst_conv
    by (intro is_temp_hex_barcodeI) simp_all
qed

text \<open>A successful barcode write changes the barcode of the piece with the identifier and
  nothing else.\<close>

lemma set_barcode_Inr:
  fixes coll coll' :: "shipment_piece list"
  assumes "set_barcode pid bc coll = Inr coll'" and "distinct (map p_id coll)"
  shows "coll' = map (\<lambda>p. if p_id p = pid then p\<lparr>p_barcode := bc\<rparr> else p) coll"
proof (cases "find_one (\<lambda>p. p_id p = pid) coll")
  case None
  then have "\<forall>p \<in> set coll. p_id p \<noteq> pid"
    by (simp add: find_one_def find_None_iff)
  then have "map (\<lambda>p. if p_id p = pid then p\<lparr>p_barcode := bc\<rparr> else p) coll = coll"
    by (simp add: map_idI)
  with None assms(1) show ?thesis by (simp add: set_barcode_def)
next
  case (Some p)
  with assms(1) have "coll' = update_one (\<lambda>p. p_id p = pid) (\<lambda>p. p\<lparr>p_barcode := bc\<rparr>) coll"
    by (simp add: set_barcode_def split: if_splits)
  then show ?thesis by (simp add: update_one_by_key [OF assms(2)])
qed

lemma write_barcodes_None:
  fixes coll coll' :: "shipment_piece list"
  assumes "write_barcodes gen r pieces coll = (None, coll')"
    and "distinct (map p_id coll)"
    and "\<And>r p. P (fst (gen r p))"
    and "\<forall>q \<in> set coll. p_id q \<in> S \<longrightarrow> P (p_barcode q)"
  shows "(\<forall>q \<in> set coll'. p_id q \<in> S \<union> p_id ` set pieces \<longrightarrow> P (p_barcode q)) \<and>
         map (\<lambda>p. p\<lparr>p_barcode := []\<rparr>) coll' = map (\<lambda>p. p\<lparr>p_barcode := []\<rparr>) coll"
  using assms(1,2,4)
proof (induction pieces arbitrary: r coll S)
  case Nil
  then show ?case by simp
next
  case (Cons piece pieces)
  let ?bc = "fst (gen r piece)"
  from Cons.prems(1) obtain coll1 where
    s: "set_barcode (p_id piece) ?bc coll = Inr coll1" and
    w: "write_barcodes gen (snd (gen r piece)) pieces coll1 = (None, coll')"
    by (auto split: sum.splits)
  have c1: "coll1 = map (\<lambda>p. if p_id p = p_id piece then p\<lparr>p_barcode := ?bc\<rparr> else p) coll"
    by (rule set_barcode_Inr [OF s Cons.prems(2)])
  have ids: "map p_id coll1 = map p_id coll"
    unfolding c1 map_map by (rule map_cong [OF refl]) simp
  have d1: "distinct (map p_id coll1)" using Cons.prems(2) ids by simp
  have inv: "\<forall>q \<in> set coll1. p_id q \<in> insert (p_id piece) S \<longrightarrow> P (p_barcode q)"
    unfolding c1 using Cons.prems(3) assms(3) [of r piece] by auto
  have fr: "map (\<lambda>p. p\<lparr>p_barcode := []\<rparr>) coll1 = map (\<lambda>p. p\<lparr>p_barcode := []\<rparr>) coll"
    unfolding c1 map_map by (rule map_cong [OF refl]) simp
  from Cons.IH [OF w d1 inv]
  have 1: "\<forall>q \<in> set coll'. p_id q \<in> insert (p_id piece) S \<union> p_id ` set pieces \<longrightarrow> P (p_barcode q)"
    and 2: "map (\<lambda>p. p\<lparr>p_barcode := []\<rparr>) coll' = map (\<lambda>p. p\<lparr>p_barcode := []\<rparr>) coll1"
    by simp_all
  have "insert (p_id piece) S \<union> p_id ` set pieces = S \<union> p_id ` set (piece # pieces)"
    by auto
  with 1 2 fr show ?case by simp
qed

lemma same_but_barcode:
  fixes coll coll' :: "shipment_piece list"
  assumes "map (\<lambda>p. p\<lparr>p_barcode := []\<rparr>) coll' = map (\<lambda>p. p\<lparr>p_barcode := []\<rparr>) coll"
  shows "map p_id (filter (\<lambda>p. p_shipment_id p = sid) coll') =
         map p_id (filter (\<lambda>p. p_shipment_id p = sid) coll)"
proof -
  let ?k = "\<lambda>p::shipment_piece. p\<lparr>p_barcode := []\<rparr>"
  have "map ?k (filter (\<lambda>p. p_shipment_id (?k p) = sid) coll') =
        map ?k (filter (\<lambda>p. p_shipment_id (?k p) = sid) coll)"
    using assms by (rule map_filter_key_cong [where Q = "\<lambda>p. p_shipment_id p = sid"])
  then have "map p_id (map ?k (filter (\<lambda>p. p_shipment_id p = sid) coll')) =
        map p_id (map ?k (filter (\<lambda>p. p_shipment_id p = sid) coll))"
    by simp
  then show ?thesis by (simp add: comp_def)
qed

lemma write_barcodes_pieces_of:
  assumes w: "write_barcodes gen r (pieces_of sid d) (shipment_pieces d) = (None, coll')"
    and dist: "distinct (map p_id (shipment_pieces d))"
    and P: "\<And>r p. P (fst (gen r p))"
    and d': "shipment_pieces d' = coll'"
  shows "\<forall>p \<in> set (pieces_of sid d'). P (p_barcode p)"
proof
  fix p assume p: "p \<in> set (pieces_of sid d')"
  have e: "\<forall>q \<in> set (shipment_pieces d). p_id q \<in> {} \<longrightarrow> P (p_barcode q)"
    by simp
  from write_barcodes_None [where P = P and S = "{}", OF w dist P e]
  have inv: "\<forall>q \<in> set coll'. p_id q \<in> p_id ` set (pieces_of sid d) \<longrightarrow> P (p_barcode q)"
    and fr: "map (\<lambda>p. p\<lparr>p_barcode := []\<rparr>) coll' = map (\<lambda>p. p\<lparr>p_barcode := []\<rparr>) (shipment_pieces d)"
    by simp_all
  have "map p_id (pieces_of sid d') = map p_id (pieces_of sid d)"
    using same_but_barcode [OF fr, of sid]
    by (simp add: pieces_of_def to_list_def d' take_map [symmetric])
  then have "p_id ` set (pieces_of sid d') = p_id ` set (pieces_of sid d)"
    by (simp only: set_map [symmetric])
  then have "p_id p \<in> p_id ` set (pieces_of sid d)"
    using p by blast
  moreover have "p \<in> set coll'"
    using p by (auto simp: pieces_of_def to_list_def d' dest: in_set_takeD)
  ultimately show "P (p_barcode p)" using inv by blast
qed

lemma set_barcode_ids:
  fixes coll coll' :: "shipment_piece list"
  assumes "set_barcode pid bc coll = Inr coll'"
  shows "map p_id coll' = map p_id coll"
proof (cases "find_one (\<lambda>p. p_id p = pid) coll")
  case None
  with assms show ?thesis by (simp add: set_barcode_def)
next
  case (Some p)
  with assms have "coll' = update_one (\<lambda>p. p_id p = pid) (\<lambda>p. p\<lparr>p_barcode := bc\<rparr>) coll"
    by (simp add: set_barcode_def split: if_splits)
  then show ?thesis by (simp add: map_update_one_key)
qed

lemma write_barcodes_ids:
  fixes coll :: "shipment_piece list"
  shows "map p_id (snd (write_barcodes gen r pieces coll)) = map p_id coll"
proof (induction pieces arbitrary: r coll)
  case Nil
  then show ?case by simp
next
  case (Cons piece pieces)
  show ?case
  proof (cases "set_barcode (p_id piece) (fst (gen r piece)) coll")
    case (Inl e)
    then show ?thesis by simp
  next
    case (Inr coll1)
    then show ?thesis using Cons.IH [of "snd (gen r piece)" coll1] set_barcode_ids [OF Inr]
      by simp
  qed
qed

lemma distinct_key_eq:
  assumes "distinct (map key xs)" and "x \<in> set xs" and "y \<in> set xs" and "key x = key y"
  shows "x = y"
  using assms by (meson distinct_map inj_onD)

lemma update_one_unique:
  assumes d: "distinct (map key xs)" and e: "list_ex q xs" and k: "\<And>x. q x \<Longrightarrow> key x = k"
  shows "update_one q f xs = map (\<lambda>x. if key x = k then f x else x) xs"
proof -
  from e obtain y where y: "y \<in> set xs" "q y" by (auto simp: list_ex_iff)
  have "update_one q f xs = map (\<lambda>x. if key x = k \<and> list_ex q xs then f x else x) xs"
  proof (rule update_one_distinct_key [OF d])
    fix x assume "x \<in> set xs" "q x" then show "key x = k" using k by simp
  next
    fix x assume x: "x \<in> set xs" "key x = k"
    have "key y = k" using y k by simp
    with x y d have "x = y" by (intro distinct_key_eq [of key xs]) simp_all
    then show "q x" using y by simp
  qed
  then show ?thesis using e by simp
qed

lemma find_one_Some_set: "find_one q xs = Some x \<Longrightarrow> x \<in> set xs"
  by (auto simp: find_one_def find_Some_iff)


lemma find_one_id_query:
  assumes d: "distinct (map key xs)" and f: "find_one (\<lambda>x. key x = k \<and> Q x) xs = Some x"
  shows "find_one (\<lambda>x. key x = k) xs = Some x"
proof -
  from find_one_Some_set [OF f] find_one_Some_q [OF f]
  have x: "x \<in> set xs" "key x = k" by simp_all
  then have "find_one (\<lambda>x. key x = k) xs \<noteq> None"
    by (auto simp: find_one_def find_None_iff)
  then obtain y where y: "find_one (\<lambda>x. key x = k) xs = Some y" by blast
  from find_one_Some_set [OF y] find_one_Some_q [OF y] x d have "y = x"
    by (intro distinct_key_eq [of key xs]) simp_all
  with y show ?thesis by simp
qed

lemma find_one_map_key:
  assumes "\<And>x. key (g x) = key x"
  shows "find_one (\<lambda>x. key x = k) (map g xs) = map_option g (find_one (\<lambda>x. key x = k) xs)"
  unfolding find_one_def by (induction xs) (simp_all add: assms)


lemma filter_all: "(\<And>x. x \<in> set xs \<Longrightarrow> P x) \<Longrightarrow> filter P xs = xs"
  by (induction xs) simp_all

section \<open>Updates of trips and shipments\<close>

lemma trip_fields_kept_refl: "trip_fields_kept u t t"
  by (simp add: trip_fields_kept_def)

lemma trip_fields_kept_set:
  "trip_fields_kept u t (set_trip (stamp_actual_arrival tr now (stamp_actual_departure tr now
      (stamp_locked_at tr now (trip_update_dict_of u)))) t)"
  by (simp add: trip_fields_kept_def set_trip_def stamp_actual_arrival_def
      stamp_actual_departure_def stamp_locked_at_def trip_update_dict_of_def split: option.splits)

lemma trip_fields_kept_set_server:
  "trip_fields_kept u t (set_trip (stamp_locked_at tr now (trip_update_dict_of u)) t)"
  by (simp add: trip_fields_kept_def set_trip_def stamp_locked_at_def trip_update_dict_of_def
      split: option.splits)

lemma shipment_fields_kept_refl: "shipment_fields_kept u s s"
  by (simp add: shipment_fields_kept_def)

lemma shipment_fields_kept_set: "shipment_fields_kept u s (set_shipment u s)"
  by (simp add: shipment_fields_kept_def set_shipment_def split: option.splits)

lemma update_trip_trips:
  "trips (snd (update_trip trip_id u tenant_id usr now d)) = trips d \<or>
   (\<exists>tr. trips (snd (update_trip trip_id u tenant_id usr now d)) =
      update_one (trip_query trip_id tenant_id)
        (set_trip (stamp_actual_arrival tr now (stamp_actual_departure tr now
          (stamp_locked_at tr now (trip_update_dict_of u))))) (trips d))"
  by (auto simp: update_trip_def create_audit_log_def Let_def split: option.splits)

lemma server_update_trip_trips:
  "trips (snd (server_update_trip trip_id u tenant_id usr now d)) = trips d \<or>
   (\<exists>tr. trips (snd (server_update_trip trip_id u tenant_id usr now d)) =
      update_one (trip_query trip_id tenant_id)
        (set_trip (stamp_locked_at tr now (trip_update_dict_of u))) (trips d))"
  by (auto simp: server_update_trip_def Let_def split: option.splits)

lemma update_shipment_shipments:
  "shipments (snd (update_shipment shipment_id u tenant_id d)) = shipments d \<or>
   shipments (snd (update_shipment shipment_id u tenant_id d)) =
      update_one (shipment_query shipment_id tenant_id) (set_shipment u) (shipments d)"
  by (auto simp: update_shipment_def Let_def)


lemma update_trip_kept:
  assumes "i < length (trips d)"
  shows "trip_fields_kept u (trips d ! i) (trips (snd (update_trip trip_id u tenant_id usr now d)) ! i)"
proof -
  let ?ts = "trips (snd (update_trip trip_id u tenant_id usr now d))"
  from update_trip_trips [of trip_id u tenant_id usr now d]
  consider "?ts = trips d"
    | tr where "?ts = update_one (trip_query trip_id tenant_id)
        (set_trip (stamp_actual_arrival tr now (stamp_actual_departure tr now
          (stamp_locked_at tr now (trip_update_dict_of u))))) (trips d)"
    by blast
  then show ?thesis
  proof cases
    case 1
    then show ?thesis by (simp add: trip_fields_kept_refl)
  next
    case 2
    show ?thesis
      unfolding 2
      by (rule update_one_nth_cases [OF assms])
         (simp_all only: trip_fields_kept_refl trip_fields_kept_set)
  qed
qed

lemma server_update_trip_kept:
  assumes "i < length (trips d)"
  shows "trip_fields_kept u (trips d ! i)
           (trips (snd (server_update_trip trip_id u tenant_id usr now d)) ! i)"
proof -
  let ?ts = "trips (snd (server_update_trip trip_id u tenant_id usr now d))"
  from server_update_trip_trips [of trip_id u tenant_id usr now d]
  consider "?ts = trips d"
    | tr where "?ts = update_one (trip_query trip_id tenant_id)
        (set_trip (stamp_locked_at tr now (trip_update_dict_of u))) (trips d)"
    by blast
  then show ?thesis
  proof cases
    case 1
    then show ?thesis by (simp add: trip_fields_kept_refl)
  next
    case 2
    show ?thesis
      unfolding 2
      by (rule update_one_nth_cases [OF assms])
         (simp_all only: trip_fields_kept_refl trip_fields_kept_set_server)
  qed
qed

lemma update_shipment_kept:
  assumes "i < length (shipments d)"
  shows "shipment_fields_kept u (shipments d ! i)
           (shipments (snd (update_shipment shipment_id u tenant_id d)) ! i)"
proof -
  let ?ss = "shipments (snd (update_shipment shipment_id u tenant_id d))"
  from update_shipment_shipments [of shipment_id u tenant_id d]
  consider "?ss = shipments d"
    | "?ss = update_one (shipment_query shipment_id tenant_id) (set_shipment u) (shipments d)"
    by blast
  then show ?thesis
  proof cases
    case 1
    then show ?thesis by (simp add: shipment_fields_kept_refl)
  next
    case 2
    show ?thesis
      unfolding 2
      by (rule update_one_nth_cases [OF assms])
         (simp_all only: shipment_fields_kept_refl shipment_fields_kept_set)
  qed
qed

lemma update_trip_length:
  "length (trips (snd (update_trip trip_id u tenant_id usr now d))) = length (trips d)"
  using update_trip_trips [of trip_id u tenant_id usr now d] by auto

lemma server_update_trip_length:
  "length (trips (snd (server_update_trip trip_id u tenant_id usr now d))) = length (trips d)"
  using server_update_trip_trips [of trip_id u tenant_id usr now d] by auto

lemma update_shipment_length:
  "length (shipments (snd (update_shipment shipment_id u tenant_id d))) = length (shipments d)"
  using update_shipment_shipments [of shipment_id u tenant_id d] by auto

lemma update_trip_frame:
  "snd (update_trip trip_id u tenant_id usr now d) =
     d\<lparr>trips := trips (snd (update_trip trip_id u tenant_id usr now d)),
       audit_logs := audit_logs (snd (update_trip trip_id u tenant_id usr now d))\<rparr>"
  by (auto simp: update_trip_def create_audit_log_def Let_def split: option.splits)

lemma update_shipment_frame:
  "snd (update_shipment shipment_id u tenant_id d) =
     d\<lparr>shipments := shipments (snd (update_shipment shipment_id u tenant_id d))\<rparr>"
  by (auto simp: update_shipment_def Let_def)

text \<open>
  C10. A trip update (either version of \<^verbatim>\<open>update_trip\<close>) and a shipment update
  leave every stored document in its place, and for each of them: a field whose value in
  the request is absent or null keeps its stored value, the fields no request carries keep
  theirs, and a field that had a value still has one, so none is set to null. Only the
  request's non-null fields and, when the request carries a status, the timestamps
  \<^verbatim>\<open>locked_at\<close>, \<^verbatim>\<open>actual_departure\<close> and \<^verbatim>\<open>actual_arrival\<close> can change.
  This holds whatever the outcome, an error leaving the collection as it was.
\<close>

theorem update_keeps_absent_fields:
  "(length (trips (snd (update_trip trip_id u tenant_id usr now d))) = length (trips d) \<and>
    (\<forall>i < length (trips d).
       trip_fields_kept u (trips d ! i)
         (trips (snd (update_trip trip_id u tenant_id usr now d)) ! i))) \<and>
   (length (trips (snd (server_update_trip trip_id u tenant_id usr now d))) = length (trips d) \<and>
    (\<forall>i < length (trips d).
       trip_fields_kept u (trips d ! i)
         (trips (snd (server_update_trip trip_id u tenant_id usr now d)) ! i))) \<and>
   (length (shipments (snd (update_shipment shipment_id su tenant_id d))) = length (shipments d) \<and>
    (\<forall>i < length (shipments d).
       shipment_fields_kept su (shipments d ! i)
         (shipments (snd (update_shipment shipment_id su tenant_id d)) ! i)))"
  by (simp add: update_trip_kept server_update_trip_kept update_shipment_kept
    update_trip_length server_update_trip_length update_shipment_length)

theorem update_keeps_absent_fields_witness:
  "tu_trip_number ex_trip_update = None \<and> 0 < length (trips ex_db) \<and>
   t_trip_number (trips (snd (update_trip ''T1'' ex_trip_update ''ten'' ex_manager
      ''2025-06-02T07:00:00+00:00'' ex_db)) ! 0) = ''S12'' \<and>
   t_notes (trips (snd (update_trip ''T1'' ex_trip_update ''ten'' ex_manager
      ''2025-06-02T07:00:00+00:00'' ex_db)) ! 0) = Some ''call ahead'' \<and>
   su_description ex_shipment_update = None \<and>
   s_description (shipments (snd (update_shipment ''SH1'' ex_shipment_update ''ten'' ex_db)) ! 0)
     = ''boxes'' \<and>
   s_destination (shipments (snd (update_shipment ''SH1'' ex_shipment_update ''ten'' ex_db)) ! 0)
     = ''Bulawayo''"
  using update_keeps_absent_fields [of "''T1''" ex_trip_update "''ten''" ex_manager
      "''2025-06-02T07:00:00+00:00''" ex_db "''SH1''" ex_shipment_update]
  by (simp add: update_trip_def update_shipment_def ex_defs ex_trip_update_def
     ex_shipment_update_def find_one_def trip_query_def shipment_query_def truthy_def
     trip_update_dict_of_def trip_number_taken_def stamp_locked_at_def stamp_actual_departure_def
     stamp_actual_arrival_def trip_update_dict_nonempty_def shipment_update_nonempty_def
     set_trip_def set_shipment_def create_audit_log_def insert_one_def matched_count_def)

section \<open>Deleting a trip\<close>

lemma server_delete_trip_ok:
  assumes "find_one (trip_query trip_id tenant_id) (trips d) = Some trip"
    and "\<not> truthy (t_locked_at trip) \<or> u_role usr = Some ''owner''"
  shows "server_delete_trip trip_id tenant_id usr d =
    (Inr (),
     d\<lparr>shipments := update_many (\<lambda>s. s_trip_id s = Some trip_id \<and> s_tenant_id s = tenant_id)
                        to_warehouse (shipments d),
       trip_expenses := delete_many (\<lambda>e. e_trip_id e = trip_id) (trip_expenses d),
       trips := delete_one (trip_query trip_id tenant_id) (trips d)\<rparr>)"
  using assms by (auto simp: server_delete_trip_def Let_def)

lemma delete_trip_ok:
  assumes "find_one (trip_query trip_id tenant_id) (trips d) = Some trip"
    and "\<not> truthy (t_locked_at trip) \<or> u_role usr = Some ''owner''"
  shows "fst (delete_trip trip_id tenant_id usr now d) = Inr () \<and>
    shipments (snd (delete_trip trip_id tenant_id usr now d)) =
      shipments (snd (server_delete_trip trip_id tenant_id usr d)) \<and>
    trip_expenses (snd (delete_trip trip_id tenant_id usr now d)) =
      trip_expenses (snd (server_delete_trip trip_id tenant_id usr d)) \<and>
    trips (snd (delete_trip trip_id tenant_id usr now d)) =
      trips (snd (server_delete_trip trip_id tenant_id usr d)) \<and>
    shipment_pieces (snd (delete_trip trip_id tenant_id usr now d)) =
      shipment_pieces (snd (server_delete_trip trip_id tenant_id usr d))"
  by (simp add: delete_trip_def server_delete_trip_ok [OF assms] create_audit_log_def)

lemma server_delete_trip_effect:
  assumes "find_one (trip_query trip_id tenant_id) (trips d) = Some trip"
    and "\<not> truthy (t_locked_at trip) \<or> u_role usr = Some ''owner''"
    and "d' = snd (server_delete_trip trip_id tenant_id usr d)"
  shows "length (shipments d') = length (shipments d)"
    and "\<forall>i < length (shipments d).
           (if s_trip_id (shipments d ! i) = Some trip_id \<and> s_tenant_id (shipments d ! i) = tenant_id
            then shipments d' ! i = (shipments d ! i)\<lparr>s_trip_id := None, s_status := warehouse\<rparr>
            else shipments d' ! i = shipments d ! i)"
    and "\<forall>e \<in> set (trip_expenses d'). e_trip_id e \<noteq> trip_id"
    and "\<forall>e \<in> set (trip_expenses d). e_trip_id e \<noteq> trip_id \<longrightarrow> e \<in> set (trip_expenses d')"
    and "shipment_pieces d' = shipment_pieces d"
    and "Suc (length (trips d')) = length (trips d)"
  using assms(3) find_one_Some_ex [OF assms(1)]
  by (simp_all add: server_delete_trip_ok [OF assms(1,2)] nth_update_many to_warehouse_def
      delete_many_def length_delete_one)

text \<open>
  C9. Deleting a trip that is not locked, or any trip as owner, succeeds in both versions
  of \<^verbatim>\<open>delete_trip\<close>. Every shipment of the tenant that was assigned to the trip
  has \<^verbatim>\<open>trip_id\<close> null and status \<^verbatim>\<open>warehouse\<close> afterwards and is otherwise
  as before, every other shipment is untouched, no expense of the trip is left while the
  expenses of other trips stay, one trip document is gone, and the collection of pieces,
  so every barcode, is exactly as it was.
\<close>

theorem delete_trip_cascade:
  assumes "find_one (trip_query trip_id tenant_id) (trips d) = Some trip"
    and "\<not> truthy (t_locked_at trip) \<or> u_role usr = Some ''owner''"
  shows "fst (delete_trip trip_id tenant_id usr now d) = Inr () \<and>
         fst (server_delete_trip trip_id tenant_id usr d) = Inr () \<and>
         (\<forall>d' \<in> {snd (delete_trip trip_id tenant_id usr now d),
                  snd (server_delete_trip trip_id tenant_id usr d)}.
            length (shipments d') = length (shipments d) \<and>
            (\<forall>i < length (shipments d).
               (if s_trip_id (shipments d ! i) = Some trip_id \<and>
                   s_tenant_id (shipments d ! i) = tenant_id
                then shipments d' ! i = (shipments d ! i)\<lparr>s_trip_id := None, s_status := warehouse\<rparr>
                else shipments d' ! i = shipments d ! i)) \<and>
            (\<forall>e \<in> set (trip_expenses d'). e_trip_id e \<noteq> trip_id) \<and>
            (\<forall>e \<in> set (trip_expenses d). e_trip_id e \<noteq> trip_id \<longrightarrow> e \<in> set (trip_expenses d')) \<and>
            shipment_pieces d' = shipment_pieces d \<and>
            Suc (length (trips d')) = length (trips d))"
proof -
  let ?s = "snd (server_delete_trip trip_id tenant_id usr d)"
  let ?t = "snd (delete_trip trip_id tenant_id usr now d)"
  let ?P = "\<lambda>d'. length (shipments d') = length (shipments d) \<and>
            (\<forall>i < length (shipments d).
               (if s_trip_id (shipments d ! i) = Some trip_id \<and>
                   s_tenant_id (shipments d ! i) = tenant_id
                then shipments d' ! i = (shipments d ! i)\<lparr>s_trip_id := None, s_status := warehouse\<rparr>
                else shipments d' ! i = shipments d ! i)) \<and>
            (\<forall>e \<in> set (trip_expenses d'). e_trip_id e \<noteq> trip_id) \<and>
            (\<forall>e \<in> set (trip_expenses d). e_trip_id e \<noteq> trip_id \<longrightarrow> e \<in> set (trip_expenses d')) \<and>
            shipment_pieces d' = shipment_pieces d \<and>
            Suc (length (trips d')) = length (trips d)"
  note e = server_delete_trip_effect [OF assms refl]
  note k = delete_trip_ok [OF assms, of now]
  have f1: "fst (server_delete_trip trip_id tenant_id usr d) = Inr ()"
    by (simp add: server_delete_trip_ok [OF assms])
  have f2: "fst (delete_trip trip_id tenant_id usr now d) = Inr ()"
    using k by (rule conjunct1)
  have Ps: "?P ?s"
    by (intro conjI e)
  have k1: "shipments ?t = shipments ?s" and k2: "trip_expenses ?t = trip_expenses ?s"
    and k3: "trips ?t = trips ?s" and k4: "shipment_pieces ?t = shipment_pieces ?s"
    using k by blast+
  have Pt: "?P ?t"
    unfolding k1 k2 k3 k4 by (rule Ps)
  have main: "\<forall>d' \<in> {?t, ?s}. ?P d'"
  proof (rule ballI)
    fix d' assume "d' \<in> {?t, ?s}"
    then consider "d' = ?t" | "d' = ?s" by blast
    then show "?P d'"
    proof cases
      case 1 show ?thesis unfolding 1 by (rule Pt)
    next
      case 2 show ?thesis unfolding 2 by (rule Ps)
    qed
  qed
  show ?thesis
    by (rule conjI [OF f2 conjI [OF f1 main]])
qed

theorem delete_trip_cascade_witness:
  "find_one (trip_query ''T1'' ''ten'') (trips ex_db) = Some ex_trip \<and>
   \<not> truthy (t_locked_at ex_trip) \<and>
   fst (delete_trip ''T1'' ''ten'' ex_manager ''2025-06-03T07:00:00+00:00'' ex_db) = Inr () \<and>
   s_trip_id (shipments ex_db ! 0) = Some ''T1'' \<and>
   s_trip_id (shipments (snd (delete_trip ''T1'' ''ten'' ex_manager
       ''2025-06-03T07:00:00+00:00'' ex_db)) ! 0) = None \<and>
   s_status (shipments (snd (delete_trip ''T1'' ''ten'' ex_manager
       ''2025-06-03T07:00:00+00:00'' ex_db)) ! 0) = warehouse \<and>
   trip_expenses (snd (delete_trip ''T1'' ''ten'' ex_manager
       ''2025-06-03T07:00:00+00:00'' ex_db)) = [ex_expense2] \<and>
   map p_barcode (shipment_pieces (snd (delete_trip ''T1'' ''ten'' ex_manager
       ''2025-06-03T07:00:00+00:00'' ex_db))) = [''S12-001-01'', ''S12-001-02'', ''TEMP-493021'']"
proof -
  have a: "find_one (trip_query ''T1'' ''ten'') (trips ex_db) = Some ex_trip"
    by (simp add: find_one_def trip_query_def ex_defs)
  have b: "\<not> truthy (t_locked_at ex_trip) \<or> u_role ex_manager = Some ''owner''"
    by (simp add: truthy_def ex_defs)
  show ?thesis
    using delete_trip_cascade [OF a b, of "''2025-06-03T07:00:00+00:00''"] a b
    by (simp add: delete_trip_def server_delete_trip_def update_many_def delete_many_def
        to_warehouse_def create_audit_log_def truthy_def ex_defs)
qed

section \<open>Closing a closed trip\<close>

lemma close_trip_locked:
  assumes "find_one (trip_query trip_id tenant_id) (trips d) = Some trip"
    and "truthy (t_locked_at trip)"
  shows "close_trip trip_id tenant_id usr now d =
     (if u_role usr = Some ''owner'' then (Inl (HTTPException 400 ''Trip is already closed''), d)
      else (Inl (HTTPException 403 ''Only owner can close trips''), d))"
  using assms by (simp add: close_trip_def)

lemma update_trip_locked_other:
  assumes "find_one (trip_query trip_id tenant_id) (trips d) = Some trip"
    and "truthy (t_locked_at trip)" and "u_role usr \<noteq> Some ''owner''"
  shows "update_trip trip_id u tenant_id usr now d =
           (Inl (HTTPException 403 ''Trip is locked. Only owner can modify.''), d)"
    and "server_update_trip trip_id u tenant_id usr now d =
           (Inl (HTTPException 403 ''Trip is locked. Only owner can modify.''), d)"
  using assms by (simp_all add: update_trip_def server_update_trip_def)

lemma stamps_closed:
  assumes "t_status trip = closed" and "tu_status u = Some closed"
  shows "stamp_locked_at trip now (trip_update_dict_of u) = trip_update_dict_of u"
    and "stamp_actual_departure trip now (trip_update_dict_of u) = trip_update_dict_of u"
    and "stamp_actual_arrival trip now (trip_update_dict_of u) = trip_update_dict_of u"
  using assms
  by (simp_all add: stamp_actual_arrival_def stamp_actual_departure_def stamp_locked_at_def
      trip_update_dict_of_def)

lemma trip_query_set_trip: "trip_query trip_id tenant_id (set_trip ud t) = trip_query trip_id tenant_id t"
  by (simp add: trip_query_def set_trip_def)

lemma update_trip_closed_owner:
  assumes f: "find_one (trip_query trip_id tenant_id) (trips d) = Some trip"
    and o: "u_role usr = Some ''owner''"
    and c: "t_status trip = closed" and s: "tu_status u = Some closed"
    and n: "\<not> trip_number_taken trip_id tenant_id trip (trip_update_dict_of u) d"
  shows "fst (update_trip trip_id u tenant_id usr now d) = Inr (Some (set_trip (trip_update_dict_of u) trip))"
    and "fst (server_update_trip trip_id u tenant_id usr now d) = Inr (Some (set_trip (trip_update_dict_of u) trip))"
proof -
  have q: "trip_query trip_id tenant_id (set_trip (trip_update_dict_of u) trip)"
    using find_one_Some_q [OF f] by (simp add: trip_query_set_trip)
  have ne: "trip_update_dict_nonempty (trip_update_dict_of u)"
    using s by (simp add: trip_update_dict_nonempty_def trip_update_dict_of_def)
  have fu: "find_one (trip_query trip_id tenant_id)
              (update_one (trip_query trip_id tenant_id) (set_trip (trip_update_dict_of u)) (trips d))
            = Some (set_trip (trip_update_dict_of u) trip)"
    using f q by (rule find_one_update_one)
  show "fst (update_trip trip_id u tenant_id usr now d) = Inr (Some (set_trip (trip_update_dict_of u) trip))"
    using f o n ne fu
    by (simp add: update_trip_def Let_def stamps_closed [OF c s] create_audit_log_def)
  show "fst (server_update_trip trip_id u tenant_id usr now d) = Inr (Some (set_trip (trip_update_dict_of u) trip))"
    using f o n ne fu
    by (simp add: server_update_trip_def Let_def stamps_closed [OF c s])
qed

lemma set_trip_closed_keeps:
  assumes "tu_status u = Some closed"
  shows "t_status (set_trip (trip_update_dict_of u) trip) = closed"
    and "t_locked_at (set_trip (trip_update_dict_of u) trip) = t_locked_at trip"
  using assms by (simp_all add: set_trip_def trip_update_dict_of_def)

text \<open>
  C2, as amended. For a trip whose \<^verbatim>\<open>locked_at\<close> is set, the close endpoint returns
  AlreadyClosed to an owner and Forbidden to anyone else, and leaves the store as it was.
  An update is Forbidden for anyone but the owner. An update by the owner that sets the
  status \<^verbatim>\<open>closed\<close> on a trip whose status is already \<^verbatim>\<open>closed\<close> is no error:
  both versions of \<^verbatim>\<open>update_trip\<close> succeed and return the trip, still closed and
  with the \<^verbatim>\<open>locked_at\<close> it had.
\<close>

theorem close_again:
  assumes "find_one (trip_query trip_id tenant_id) (trips d) = Some trip"
    and "truthy (t_locked_at trip)"
  shows "(u_role usr = Some ''owner'' \<longrightarrow>
            (\<exists>e. close_trip trip_id tenant_id usr now d = (Inl e, d) \<and> AlreadyClosed e)) \<and>
         (u_role usr \<noteq> Some ''owner'' \<longrightarrow>
            (\<exists>e. close_trip trip_id tenant_id usr now d = (Inl e, d) \<and> Forbidden e) \<and>
            (\<exists>e. update_trip trip_id u tenant_id usr now d = (Inl e, d) \<and> Forbidden e) \<and>
            (\<exists>e. server_update_trip trip_id u tenant_id usr now d = (Inl e, d) \<and> Forbidden e)) \<and>
         (u_role usr = Some ''owner'' \<and> t_status trip = closed \<and> tu_status u = Some closed \<and>
          \<not> trip_number_taken trip_id tenant_id trip (trip_update_dict_of u) d \<longrightarrow>
            (\<exists>t'. fst (update_trip trip_id u tenant_id usr now d) = Inr (Some t') \<and>
                  fst (server_update_trip trip_id u tenant_id usr now d) = Inr (Some t') \<and>
                  t_status t' = closed \<and> t_locked_at t' = t_locked_at trip))"
proof (intro conjI impI)
  assume "u_role usr = Some ''owner''"
  then show "\<exists>e. close_trip trip_id tenant_id usr now d = (Inl e, d) \<and> AlreadyClosed e"
    by (simp add: close_trip_locked [OF assms] AlreadyClosed_def)
next
  assume "u_role usr \<noteq> Some ''owner''"
  then show "\<exists>e. close_trip trip_id tenant_id usr now d = (Inl e, d) \<and> Forbidden e"
    by (simp add: close_trip_locked [OF assms] Forbidden_def)
next
  assume o: "u_role usr \<noteq> Some ''owner''"
  show "\<exists>e. update_trip trip_id u tenant_id usr now d = (Inl e, d) \<and> Forbidden e"
    by (simp add: update_trip_locked_other [OF assms o] Forbidden_def)
next
  assume o: "u_role usr \<noteq> Some ''owner''"
  show "\<exists>e. server_update_trip trip_id u tenant_id usr now d = (Inl e, d) \<and> Forbidden e"
    by (simp add: update_trip_locked_other [OF assms o] Forbidden_def)
next
  assume a: "u_role usr = Some ''owner'' \<and> t_status trip = closed \<and> tu_status u = Some closed \<and>
          \<not> trip_number_taken trip_id tenant_id trip (trip_update_dict_of u) d"
  then have o: "u_role usr = Some ''owner''" and c: "t_status trip = closed"
    and s: "tu_status u = Some closed"
    and n: "\<not> trip_number_taken trip_id tenant_id trip (trip_update_dict_of u) d"
    by simp_all
  show "\<exists>t'. fst (update_trip trip_id u tenant_id usr now d) = Inr (Some t') \<and>
                  fst (server_update_trip trip_id u tenant_id usr now d) = Inr (Some t') \<and>
                  t_status t' = closed \<and> t_locked_at t' = t_locked_at trip"
    using update_trip_closed_owner [OF assms(1) o c s n, of now] set_trip_closed_keeps [OF s, of trip]
    by blast
qed

lemma ex_find_T2: "find_one (trip_query ''T2'' ''ten'') (trips ex_db) = Some ex_closed_trip"
  by (simp add: find_one_def trip_query_def ex_defs)

lemma ex_T2_locked: "truthy (t_locked_at ex_closed_trip)"
  by (simp add: truthy_def ex_defs)

lemma ex_close_update_free:
  "\<not> trip_number_taken ''T2'' ''ten'' ex_closed_trip (trip_update_dict_of ex_close_update) ex_db"
  by (simp add: trip_number_taken_def trip_update_dict_of_def ex_close_update_def)

theorem close_again_witness:
  "find_one (trip_query ''T2'' ''ten'') (trips ex_db) = Some ex_closed_trip \<and>
   truthy (t_locked_at ex_closed_trip) \<and>
   close_trip ''T2'' ''ten'' ex_owner ''2025-06-05T00:00:00+00:00'' ex_db =
     (Inl (HTTPException 400 ''Trip is already closed''), ex_db) \<and>
   (\<exists>t'. fst (update_trip ''T2'' ex_close_update ''ten'' ex_owner ''2025-06-05T00:00:00+00:00'' ex_db)
           = Inr (Some t') \<and>
         t_locked_at t' = Some ''2025-05-20T10:00:00+00:00'') \<and>
   (\<exists>e. update_trip ''T2'' ex_close_update ''ten'' ex_manager ''2025-06-05T00:00:00+00:00'' ex_db
           = (Inl e, ex_db) \<and> Forbidden e)"
proof -
  have o: "u_role ex_owner = Some ''owner''" and m: "u_role ex_manager \<noteq> Some ''owner''"
    by (simp_all add: ex_owner_def ex_manager_def)
  have c: "t_status ex_closed_trip = closed" and s: "tu_status ex_close_update = Some closed"
    and l: "t_locked_at ex_closed_trip = Some ''2025-05-20T10:00:00+00:00''"
    by (simp_all add: ex_closed_trip_def ex_trip_def ex_close_update_def)
  from close_again [OF ex_find_T2 ex_T2_locked, of ex_owner "''2025-06-05T00:00:00+00:00''"
      ex_close_update] o c s ex_close_update_free l
  have 1: "close_trip ''T2'' ''ten'' ex_owner ''2025-06-05T00:00:00+00:00'' ex_db =
     (Inl (HTTPException 400 ''Trip is already closed''), ex_db)"
    and 2: "\<exists>t'. fst (update_trip ''T2'' ex_close_update ''ten'' ex_owner ''2025-06-05T00:00:00+00:00'' ex_db)
           = Inr (Some t') \<and> t_locked_at t' = Some ''2025-05-20T10:00:00+00:00''"
    by (auto simp: AlreadyClosed_def)
  from close_again [OF ex_find_T2 ex_T2_locked, of ex_manager "''2025-06-05T00:00:00+00:00''"
      ex_close_update] m
  have 3: "\<exists>e. update_trip ''T2'' ex_close_update ''ten'' ex_manager ''2025-06-05T00:00:00+00:00'' ex_db
           = (Inl e, ex_db) \<and> Forbidden e"
    by blast
  show ?thesis using ex_find_T2 ex_T2_locked 1 2 3 by blast
qed


text \<open>
  The claim as stated fails on the update route: the owner's update with status
  \<^verbatim>\<open>closed\<close> on the closed trip \<open>T2\<close> succeeds and returns the trip unchanged.
\<close>

theorem close_again_counterexample:
  "t_status ex_closed_trip = closed \<and> truthy (t_locked_at ex_closed_trip) \<and>
   find_one (trip_query ''T2'' ''ten'') (trips ex_db) = Some ex_closed_trip \<and>
   update_trip ''T2'' ex_close_update ''ten'' ex_owner ''2025-06-05T00:00:00+00:00'' ex_db =
     (Inr (Some ex_closed_trip),
      ex_db\<lparr>audit_logs :=
        [\<lparr>a_tenant_id = ''ten'', a_user_id = ''U1'', a_action = status_change,
          a_table_name = ''trips'', a_record_id = ''T2'',
          a_created_at = ''2025-06-05T00:00:00+00:00''\<rparr>]\<rparr>) \<and>
   server_update_trip ''T2'' ex_close_update ''ten'' ex_owner ''2025-06-05T00:00:00+00:00'' ex_db =
     (Inr (Some ex_closed_trip), ex_db)"
  by (simp add: update_trip_def server_update_trip_def ex_defs ex_close_update_def find_one_def
      trip_query_def truthy_def trip_update_dict_of_def trip_number_taken_def stamp_locked_at_def
      stamp_actual_departure_def stamp_actual_arrival_def trip_update_dict_nonempty_def
      set_trip_def create_audit_log_def insert_one_def)

section \<open>The lock on a closed trip\<close>

lemma locked_expense_routes:
  assumes "find_one (trip_query trip_id tenant_id) (trips d) = Some trip"
    and "truthy (t_locked_at trip)"
  shows "u_role usr \<noteq> Some ''owner'' \<Longrightarrow>
           update_trip_expense trip_id expense_id eu tenant_id usr d =
             (Inl (HTTPException 403 ''Trip is locked. Only owner can edit expenses.''), d)"
    and "u_role usr \<noteq> Some ''owner'' \<Longrightarrow>
           delete_trip_expense trip_id expense_id tenant_id usr d =
             (Inl (HTTPException 403 ''Trip is locked. Only owner can delete expenses.''), d)"
    and "u_role usr = Some ''owner'' \<Longrightarrow> list_ex (expense_query expense_id trip_id) (trip_expenses d)
           \<Longrightarrow> \<exists>x. fst (update_trip_expense trip_id expense_id eu tenant_id usr d) = Inr x"
    and "u_role usr = Some ''owner'' \<Longrightarrow> list_ex (expense_query expense_id trip_id) (trip_expenses d)
           \<Longrightarrow> fst (delete_trip_expense trip_id expense_id tenant_id usr d) = Inr ()"
  using assms
  by (simp_all add: update_trip_expense_def delete_trip_expense_def matched_count_def Let_def)

lemma locked_shipment_routes:
  assumes "find_one (trip_query trip_id tenant_id) (trips d) = Some trip"
    and "truthy (t_locked_at trip)"
  shows "assign_shipment_to_trip trip_id shipment_id tenant_id r d =
           (Inl (HTTPException 403 ''Cannot modify shipments on a locked trip''), d)"
    and "unassign_shipment_from_trip trip_id shipment_id tenant_id r d =
           (Inl (HTTPException 403 ''Cannot modify shipments on a locked trip''), d)"
    and "remove_parcel_from_trip trip_id shipment_id tenant_id usr now r d =
           (Inl (HTTPException 403 ''Cannot modify closed trip''), d)"
  using assms
  by (simp_all add: assign_shipment_to_trip_def unassign_shipment_from_trip_def
      remove_parcel_from_trip_def)

text \<open>
  C1, as amended. For a trip whose \<^verbatim>\<open>locked_at\<close> is set: an expense update and an
  expense deletion by an actor who is not the owner fail with Forbidden and leave the store
  unchanged, and by the owner they succeed when the expense exists on the trip; a shipment
  assignment and an unassignment (by either route) fail with Forbidden and leave the store
  unchanged for every actor, the owner included. Nothing is said of expense creation.
\<close>

theorem locked_trip_gate:
  assumes "find_one (trip_query trip_id tenant_id) (trips d) = Some trip"
    and "truthy (t_locked_at trip)"
  shows "(u_role usr \<noteq> Some ''owner'' \<longrightarrow>
            (\<exists>e. update_trip_expense trip_id expense_id eu tenant_id usr d = (Inl e, d) \<and> Forbidden e) \<and>
            (\<exists>e. delete_trip_expense trip_id expense_id tenant_id usr d = (Inl e, d) \<and> Forbidden e)) \<and>
         (u_role usr = Some ''owner'' \<and>
          list_ex (expense_query expense_id trip_id) (trip_expenses d) \<longrightarrow>
            (\<exists>x. fst (update_trip_expense trip_id expense_id eu tenant_id usr d) = Inr x) \<and>
            fst (delete_trip_expense trip_id expense_id tenant_id usr d) = Inr ()) \<and>
         (\<exists>e. assign_shipment_to_trip trip_id shipment_id tenant_id r d = (Inl e, d) \<and> Forbidden e) \<and>
         (\<exists>e. unassign_shipment_from_trip trip_id shipment_id tenant_id r d = (Inl e, d) \<and>
              Forbidden e) \<and>
         (\<exists>e. remove_parcel_from_trip trip_id shipment_id tenant_id usr now r d = (Inl e, d) \<and>
              Forbidden e)"
  by (simp add: locked_expense_routes [OF assms] locked_shipment_routes [OF assms] Forbidden_def)

lemma ex_E2_on_T2: "list_ex (expense_query ''E2'' ''T2'') (trip_expenses ex_db)"
  by (simp add: expense_query_def ex_defs)

theorem locked_trip_gate_witness:
  "find_one (trip_query ''T2'' ''ten'') (trips ex_db) = Some ex_closed_trip \<and>
   truthy (t_locked_at ex_closed_trip) \<and>
   (\<exists>e. delete_trip_expense ''T2'' ''E2'' ''ten'' ex_manager ex_db = (Inl e, ex_db) \<and> Forbidden e) \<and>
   (\<exists>x. fst (update_trip_expense ''T2'' ''E2'' ex_expense_update ''ten'' ex_owner ex_db) = Inr x) \<and>
   fst (delete_trip_expense ''T2'' ''E2'' ''ten'' ex_owner ex_db) = Inr ()"
proof -
  have o: "u_role ex_owner = Some ''owner''" and m: "u_role ex_manager \<noteq> Some ''owner''"
    by (simp_all add: ex_owner_def ex_manager_def)
  from locked_trip_gate [OF ex_find_T2 ex_T2_locked, of ex_manager "''E2''" ex_expense_update] m
  have 1: "\<exists>e. delete_trip_expense ''T2'' ''E2'' ''ten'' ex_manager ex_db = (Inl e, ex_db) \<and> Forbidden e"
    by blast
  from locked_trip_gate [OF ex_find_T2 ex_T2_locked, of ex_owner "''E2''" ex_expense_update]
    o ex_E2_on_T2
  have 2: "(\<exists>x. fst (update_trip_expense ''T2'' ''E2'' ex_expense_update ''ten'' ex_owner ex_db) = Inr x) \<and>
   fst (delete_trip_expense ''T2'' ''E2'' ''ten'' ex_owner ex_db) = Inr ()"
    by blast
  show ?thesis using ex_find_T2 ex_T2_locked 1 2 by blast
qed

text \<open>
  The claim as stated fails on the closed trip \<open>T2\<close>: assigning and unassigning a
  shipment are refused with no look at the actor (the routes do not take the user), so the
  owner is refused too; and a manager's expense creation goes through.
\<close>

theorem locked_trip_gate_counterexample:
  "find_one (trip_query ''T2'' ''ten'') (trips ex_db) = Some ex_closed_trip \<and>
   truthy (t_locked_at ex_closed_trip) \<and>
   assign_shipment_to_trip ''T2'' ''SH2'' ''ten'' (\<lambda>i. 0) ex_db =
     (Inl (HTTPException 403 ''Cannot modify shipments on a locked trip''), ex_db) \<and>
   unassign_shipment_from_trip ''T2'' ''SH3'' ''ten'' (\<lambda>i. 0) ex_db =
     (Inl (HTTPException 403 ''Cannot modify shipments on a locked trip''), ex_db) \<and>
   u_role ex_manager \<noteq> Some ''owner'' \<and>
   fst (create_trip_expense ''T2'' ex_expense_create ''ten'' ex_manager ''E3''
          ''2025-06-05T00:00:00+00:00'' ex_db) =
     Inr \<lparr>e_id = ''E3'', e_trip_id = ''T2'', e_category = food, e_amount = 120,
          e_currency = ''ZAR'', e_expense_date = ''2025-06-02'', e_description = None,
          e_receipt_url = None, e_created_by = ''U2'',
          e_created_at = ''2025-06-05T00:00:00+00:00''\<rparr> \<and>
   length (trip_expenses (snd (create_trip_expense ''T2'' ex_expense_create ''ten'' ex_manager
          ''E3'' ''2025-06-05T00:00:00+00:00'' ex_db))) = 3"
  by (simp add: ex_find_T2 ex_T2_locked assign_shipment_to_trip_def
      unassign_shipment_from_trip_def create_trip_expense_def ex_expense_create_def
      insert_one_def ex_manager_def Let_def)
     (simp add: ex_db_def)

section \<open>Assigning a shipment and taking it off again\<close>

lemma write_barcodes_ids_pair:
  fixes coll coll' :: "shipment_piece list"
  assumes "write_barcodes gen r pieces coll = (e, coll')"
  shows "map p_id coll' = map p_id coll"
  using write_barcodes_ids [of gen r pieces coll] assms by simp

lemma assign_unique_ids:
  assumes "unique_ids d" shows "unique_ids (snd (assign_shipment_to_trip trip_id sid tenant r d))"
proof -
  have "map s_id (shipments (snd (assign_shipment_to_trip trip_id sid tenant r d))) =
          map s_id (shipments d) \<and>
        map p_id (shipment_pieces (snd (assign_shipment_to_trip trip_id sid tenant r d))) =
          map p_id (shipment_pieces d) \<and>
        invoices (snd (assign_shipment_to_trip trip_id sid tenant r d)) = invoices d"
    by (auto simp: assign_shipment_to_trip_def Let_def map_update_one_key
        split: option.splits prod.splits dest: write_barcodes_ids_pair)
  with assms show ?thesis by (simp add: unique_ids_def)
qed

lemma unassign_success:
  assumes "unassign_shipment_from_trip trip_id sid tenant r d = (Inr (), d')"
  shows "list_ex (\<lambda>s. shipment_query sid tenant s \<and> s_trip_id s = Some trip_id) (shipments d)"
    and "shipments d' = update_one (\<lambda>s. shipment_query sid tenant s \<and> s_trip_id s = Some trip_id)
                          to_warehouse (shipments d)"
    and "write_barcodes (\<lambda>r piece. generate_barcode r None 0 (p_piece_number piece)) r
           (pieces_of sid (d\<lparr>shipments := shipments d'\<rparr>)) (shipment_pieces d)
         = (None, shipment_pieces d')"
  using assms
  by (auto simp: unassign_shipment_from_trip_def Let_def matched_count_def
      split: option.splits prod.splits if_splits)

lemma remove_parcel_success:
  assumes "remove_parcel_from_trip trip_id sid tenant usr now r d = (Inr (), d')"
  shows "list_ex (\<lambda>s. s_id s = sid) (shipments d)"
    and "shipments d' = update_one (\<lambda>s. s_id s = sid) to_warehouse (shipments d)"
    and "write_barcodes (\<lambda>r piece. temp_barcode r) r
           (pieces_of sid (d\<lparr>shipments := shipments d'\<rparr>)) (shipment_pieces d)
         = (None, shipment_pieces d')"
proof -
  from assms obtain parcel where
    p: "find_one (\<lambda>s. s_id s = sid \<and> s_trip_id s = Some trip_id) (shipments d) = Some parcel"
    by (auto simp: remove_parcel_from_trip_def split: option.splits if_splits)
  from find_one_Some_set [OF p] find_one_Some_q [OF p]
  show "list_ex (\<lambda>s. s_id s = sid) (shipments d)"
    by (auto simp: list_ex_iff)
  from assms p
  show "shipments d' = update_one (\<lambda>s. s_id s = sid) to_warehouse (shipments d)"
    by (auto simp: remove_parcel_from_trip_def Let_def create_audit_log_def
      split: option.splits prod.splits if_splits)
  from assms p
  show "write_barcodes (\<lambda>r piece. temp_barcode r) r
           (pieces_of sid (d\<lparr>shipments := shipments d'\<rparr>)) (shipment_pieces d)
         = (None, shipment_pieces d')"
    by (auto simp: remove_parcel_from_trip_def Let_def create_audit_log_def
      split: option.splits prod.splits if_splits)
qed

lemma pieces_of_shipments [simp]: "pieces_of sid (d\<lparr>shipments := ss\<rparr>) = pieces_of sid d"
  by (simp add: pieces_of_def)

lemma to_warehouse_all:
  assumes "shipments d' = map (\<lambda>s. if s_id s = sid then to_warehouse s else s) (shipments d)"
    and "list_ex (\<lambda>s. s_id s = sid) (shipments d)"
  shows "(\<exists>s \<in> set (shipments d'). s_id s = sid) \<and>
         (\<forall>s \<in> set (shipments d'). s_id s = sid \<longrightarrow> s_trip_id s = None \<and> s_status s = warehouse)"
proof (intro conjI ballI impI)
  from assms(2) obtain s where s: "s \<in> set (shipments d)" "s_id s = sid"
    by (auto simp: list_ex_iff)
  then have "to_warehouse s \<in> set (shipments d')"
    unfolding assms(1) set_map by (intro image_eqI [where x = s]) simp_all
  moreover have "s_id (to_warehouse s) = sid"
    using s by (simp add: to_warehouse_def)
  ultimately show "\<exists>s \<in> set (shipments d'). s_id s = sid" by blast
next
  fix s assume "s \<in> set (shipments d')" and i: "s_id s = sid"
  then obtain s0 where s0: "s = (if s_id s0 = sid then to_warehouse s0 else s0)"
    unfolding assms(1) set_map by blast
  show "s_trip_id s = None"
    using s0 i by (cases "s_id s0 = sid") (simp_all add: to_warehouse_def)
  show "s_status s = warehouse"
    using s0 i by (cases "s_id s0 = sid") (simp_all add: to_warehouse_def)
qed

lemma unassign_effect:
  assumes u: "unassign_shipment_from_trip trip_id sid tenant r d = (Inr (), d')"
    and w: "unique_ids d"
  shows "(\<exists>s \<in> set (shipments d'). s_id s = sid) \<and>
         (\<forall>s \<in> set (shipments d'). s_id s = sid \<longrightarrow> s_trip_id s = None \<and> s_status s = warehouse) \<and>
         (\<forall>p \<in> set (pieces_of sid d'). is_temp_barcode (p_barcode p))"
proof -
  note s = unassign_success [OF u]
  have ds: "distinct (map s_id (shipments d))" and dp: "distinct (map p_id (shipment_pieces d))"
    using w by (simp_all add: unique_ids_def)
  have "shipments d' = map (\<lambda>s. if s_id s = sid then to_warehouse s else s) (shipments d)"
    unfolding s(2) by (rule update_one_unique [OF ds s(1)]) (simp add: shipment_query_def)
  moreover have "list_ex (\<lambda>s. s_id s = sid) (shipments d)"
    using s(1) by (auto simp: list_ex_iff shipment_query_def)
  ultimately have a: "(\<exists>s \<in> set (shipments d'). s_id s = sid) \<and>
         (\<forall>s \<in> set (shipments d'). s_id s = sid \<longrightarrow> s_trip_id s = None \<and> s_status s = warehouse)"
    by (rule to_warehouse_all)
  have "\<forall>p \<in> set (pieces_of sid d'). is_temp_barcode (p_barcode p)"
  proof (rule write_barcodes_pieces_of [where d = d and P = is_temp_barcode])
    show "write_barcodes (\<lambda>r piece. generate_barcode r None 0 (p_piece_number piece)) r
            (pieces_of sid d) (shipment_pieces d) = (None, shipment_pieces d')"
      using s(3) by simp
    show "distinct (map p_id (shipment_pieces d))" by (rule dp)
    show "\<And>r p. is_temp_barcode (fst (generate_barcode r None 0 (p_piece_number p)))"
      by (rule is_temp_generate_barcode)
    show "shipment_pieces d' = shipment_pieces d'" by (rule refl)
  qed
  with a show ?thesis by simp
qed

lemma remove_parcel_effect:
  assumes u: "remove_parcel_from_trip trip_id sid tenant usr now r d = (Inr (), d')"
    and w: "unique_ids d"
  shows "(\<exists>s \<in> set (shipments d'). s_id s = sid) \<and>
         (\<forall>s \<in> set (shipments d'). s_id s = sid \<longrightarrow> s_trip_id s = None \<and> s_status s = warehouse) \<and>
         (\<forall>p \<in> set (pieces_of sid d'). is_temp_hex_barcode (p_barcode p))"
proof -
  note s = remove_parcel_success [OF u]
  have ds: "distinct (map s_id (shipments d))" and dp: "distinct (map p_id (shipment_pieces d))"
    using w by (simp_all add: unique_ids_def)
  have "shipments d' = map (\<lambda>s. if s_id s = sid then to_warehouse s else s) (shipments d)"
    unfolding s(2) by (rule update_one_by_key [OF ds])
  then have a: "(\<exists>s \<in> set (shipments d'). s_id s = sid) \<and>
         (\<forall>s \<in> set (shipments d'). s_id s = sid \<longrightarrow> s_trip_id s = None \<and> s_status s = warehouse)"
    using s(1) by (rule to_warehouse_all)
  have "\<forall>p \<in> set (pieces_of sid d'). is_temp_hex_barcode (p_barcode p)"
  proof (rule write_barcodes_pieces_of [where d = d and P = is_temp_hex_barcode])
    show "write_barcodes (\<lambda>r piece. temp_barcode r) r
            (pieces_of sid d) (shipment_pieces d) = (None, shipment_pieces d')"
      using s(3) by simp
    show "distinct (map p_id (shipment_pieces d))" by (rule dp)
    show "\<And>r p. is_temp_hex_barcode (fst (temp_barcode r))"
      by (rule is_temp_hex_temp_barcode)
    show "shipment_pieces d' = shipment_pieces d'" by (rule refl)
  qed
  with a show ?thesis by simp
qed

text \<open>
  C7, as amended. In a store whose identifiers are unique, when a shipment is assigned to
  a trip and then taken off it again, both calls succeeding: the shipment has
  \<^verbatim>\<open>trip_id\<close> null and status \<^verbatim>\<open>warehouse\<close>, and each piece the route reads
  (\<open>pieces_of\<close>: the first 100 pieces of the shipment, all of them when it has no more)
  carries a temporary barcode. After \<^verbatim>\<open>unassign_shipment_from_trip\<close> that is
  \<^verbatim>\<open>TEMP-\<close> and six decimal digits; after \<^verbatim>\<open>remove_parcel_from_trip\<close> it is
  \<^verbatim>\<open>TEMP-\<close> and eight upper-case hexadecimal digits.
\<close>

theorem assign_then_unassign:
  assumes "unique_ids d0"
    and "assign_shipment_to_trip trip_id sid tenant r0 d0 = (Inr (), d1)"
  shows "(unassign_shipment_from_trip trip_id sid tenant r1 d1 = (Inr (), d2) \<longrightarrow>
            (\<exists>s \<in> set (shipments d2). s_id s = sid) \<and>
            (\<forall>s \<in> set (shipments d2). s_id s = sid \<longrightarrow>
               s_trip_id s = None \<and> s_status s = warehouse) \<and>
            (\<forall>p \<in> set (pieces_of sid d2). is_temp_barcode (p_barcode p))) \<and>
         (remove_parcel_from_trip trip_id sid tenant usr now r1 d1 = (Inr (), d3) \<longrightarrow>
            (\<exists>s \<in> set (shipments d3). s_id s = sid) \<and>
            (\<forall>s \<in> set (shipments d3). s_id s = sid \<longrightarrow>
               s_trip_id s = None \<and> s_status s = warehouse) \<and>
            (\<forall>p \<in> set (pieces_of sid d3). is_temp_hex_barcode (p_barcode p)))"
proof -
  have "unique_ids (snd (assign_shipment_to_trip trip_id sid tenant r0 d0))"
    using assms(1) by (rule assign_unique_ids)
  then have w: "unique_ids d1" using assms(2) by simp
  show ?thesis
  proof (intro conjI impI)
    assume u: "unassign_shipment_from_trip trip_id sid tenant r1 d1 = (Inr (), d2)"
    note e = unassign_effect [OF u w]
    show "\<exists>s \<in> set (shipments d2). s_id s = sid" using e by (rule conjunct1)
    show "\<forall>s \<in> set (shipments d2). s_id s = sid \<longrightarrow>
               s_trip_id s = None \<and> s_status s = warehouse"
      using e by (elim conjE)
    show "\<forall>p \<in> set (pieces_of sid d2). is_temp_barcode (p_barcode p)"
      using e by (elim conjE)
  next
    assume u: "remove_parcel_from_trip trip_id sid tenant usr now r1 d1 = (Inr (), d3)"
    note e = remove_parcel_effect [OF u w]
    show "\<exists>s \<in> set (shipments d3). s_id s = sid" using e by (rule conjunct1)
    show "\<forall>s \<in> set (shipments d3). s_id s = sid \<longrightarrow>
               s_trip_id s = None \<and> s_status s = warehouse"
      using e by (elim conjE)
    show "\<forall>p \<in> set (pieces_of sid d3). is_temp_hex_barcode (p_barcode p)"
      using e by (elim conjE)
  qed
qed

lemma ex_unique_ids: "unique_ids ex_db"
  by (simp add: unique_ids_def ex_defs)

lemma ex_find_T1: "find_one (trip_query ''T1'' ''ten'') (trips ex_db) = Some ex_trip"
  by (simp add: find_one_def trip_query_def ex_defs)

lemma ex_T1_open: "\<not> truthy (t_locked_at ex_trip)"
  by (simp add: truthy_def ex_defs)

lemma ex_barcode_S12: "generate_barcode r (Some ''S12'') (Suc (Suc 0)) 1 = (''S12-002-01'', r)"
  by (simp add: generate_barcode_def format_d_def zfill_def string_digits_def eval_nat_numeral)

lemma ex_barcode_TEMP: "fst (generate_barcode Suc None 0 1) = ''TEMP-123456''"
  by (simp add: generate_barcode_def random_choices_def string_digits_def upt_rec)

lemma ex_barcode_HEX: "fst (temp_barcode (\<lambda>i. i + 10)) = ''TEMP-ABCDEF01''"
  by (simp add: temp_barcode_def random_choices_def upt_rec)

lemma ex_assign:
  "assign_shipment_to_trip ''T1'' ''SH2'' ''ten'' (\<lambda>i. 0) ex_db = (Inr (), ex_assigned)"
proof -
  have t: "t_trip_number ex_trip = ''S12''" by (simp add: ex_trip_def)
  show ?thesis
    unfolding assign_shipment_to_trip_def ex_find_T1 option.case
    apply (simp add: ex_T1_open t)
    apply (simp add: ex_assigned_def ex_defs matched_count_def shipment_query_def pieces_of_def
        to_list_def count_documents_def ex_barcode_S12 set_barcode_def find_one_def)
    done
qed

lemma ex_find_T1_assigned:
  "find_one (trip_query ''T1'' ''ten'') (trips ex_assigned) = Some ex_trip"
  by (simp add: find_one_def trip_query_def ex_assigned_def ex_defs)

lemma ex_unassign:
  "unassign_shipment_from_trip ''T1'' ''SH2'' ''ten'' Suc ex_assigned
     = (Inr (), ex_unassigned)"
  unfolding unassign_shipment_from_trip_def ex_find_T1_assigned option.case
  apply (simp add: ex_T1_open)
  apply (simp add: ex_assigned_def ex_unassigned_def ex_defs matched_count_def shipment_query_def
      pieces_of_def to_list_def to_warehouse_def ex_barcode_TEMP set_barcode_def find_one_def)
  done

lemma ex_remove:
  "remove_parcel_from_trip ''T1'' ''SH2'' ''ten'' ex_manager ''2025-06-04T00:00:00+00:00''
     (\<lambda>i. i + 10) ex_assigned = (Inr (), ex_removed)"
  unfolding remove_parcel_from_trip_def ex_find_T1_assigned option.case
  apply (simp add: ex_T1_open)
  apply (simp add: ex_assigned_def ex_removed_def ex_defs pieces_of_def to_list_def
      to_warehouse_def ex_barcode_HEX set_barcode_def find_one_def create_audit_log_def
      insert_one_def)
  done

theorem assign_then_unassign_witness:
  "unique_ids ex_db \<and>
   assign_shipment_to_trip ''T1'' ''SH2'' ''ten'' (\<lambda>i. 0) ex_db = (Inr (), ex_assigned) \<and>
   unassign_shipment_from_trip ''T1'' ''SH2'' ''ten'' Suc ex_assigned = (Inr (), ex_unassigned) \<and>
   s_id (shipments ex_unassigned ! 1) = ''SH2'' \<and>
   s_trip_id (shipments ex_unassigned ! 1) = None \<and>
   s_status (shipments ex_unassigned ! 1) = warehouse \<and>
   length (pieces_of ''SH2'' ex_unassigned) = 1 \<and>
   is_temp_barcode (p_barcode (pieces_of ''SH2'' ex_unassigned ! 0))"
proof -
  have n: "length (pieces_of ''SH2'' ex_unassigned) = 1"
    by (simp add: pieces_of_def to_list_def ex_unassigned_def ex_defs)
  have m: "shipments ex_unassigned ! 1 \<in> set (shipments ex_unassigned)"
    and i: "s_id (shipments ex_unassigned ! 1) = ''SH2''"
    by (simp_all add: ex_unassigned_def ex_defs)
  from assign_then_unassign [OF ex_unique_ids ex_assign,
      where ?r1.0 = Suc and ?d2.0 = ex_unassigned and usr = ex_manager
        and now = "''2025-06-04T00:00:00+00:00''" and ?d3.0 = ex_removed] ex_unassign
  have a: "\<forall>s \<in> set (shipments ex_unassigned). s_id s = ''SH2'' \<longrightarrow>
      s_trip_id s = None \<and> s_status s = warehouse"
    and b: "\<forall>p \<in> set (pieces_of ''SH2'' ex_unassigned). is_temp_barcode (p_barcode p)"
    by blast+
  from a m i have 1: "s_trip_id (shipments ex_unassigned ! 1) = None"
    and 2: "s_status (shipments ex_unassigned ! 1) = warehouse"
    by blast+
  from n have "pieces_of ''SH2'' ex_unassigned ! 0 \<in> set (pieces_of ''SH2'' ex_unassigned)"
    by simp
  with b have 3: "is_temp_barcode (p_barcode (pieces_of ''SH2'' ex_unassigned ! 0))"
    by blast
  from ex_unique_ids ex_assign ex_unassign i 1 2 n 3 show ?thesis by blast
qed

text \<open>
  The claim as stated fails for the second route: after \<open>SH2\<close> is assigned to \<open>T1\<close>
  and removed with \<^verbatim>\<open>remove_parcel_from_trip\<close>, its piece carries
  \<^verbatim>\<open>TEMP-ABCDEF01\<close>, which is not \<^verbatim>\<open>TEMP-\<close> and six decimal digits.
\<close>

theorem assign_then_unassign_counterexample:
  "assign_shipment_to_trip ''T1'' ''SH2'' ''ten'' (\<lambda>i. 0) ex_db = (Inr (), ex_assigned) \<and>
   remove_parcel_from_trip ''T1'' ''SH2'' ''ten'' ex_manager ''2025-06-04T00:00:00+00:00''
     (\<lambda>i. i + 10) ex_assigned = (Inr (), ex_removed) \<and>
   map p_barcode (pieces_of ''SH2'' ex_removed) = [''TEMP-ABCDEF01''] \<and>
   \<not> is_temp_barcode ''TEMP-ABCDEF01''"
proof -
  have "map p_barcode (pieces_of ''SH2'' ex_removed) = [''TEMP-ABCDEF01'']"
    by (simp add: pieces_of_def to_list_def ex_removed_def ex_defs)
  moreover have "\<not> is_temp_barcode ''TEMP-ABCDEF01''"
    by (simp add: is_temp_barcode_def)
  ultimately show ?thesis using ex_assign ex_remove by blast
qed

section \<open>Generating the invoices of a trip\<close>

lemma find_one_append_not_None:
  "find_one q xs \<noteq> None \<Longrightarrow> find_one q (xs @ ys) \<noteq> None"
  by (auto simp: find_one_def find_None_iff)

lemma trip_invoice_fields:
  "i_tenant_id (trip_invoice trip_id tenant usr year now due nid c ss d) = tenant"
  "i_client_id (trip_invoice trip_id tenant usr year now due nid c ss d) = c"
  "i_shipment_ids (trip_invoice trip_id tenant usr year now due nid c ss d) = map s_id ss"
  "i_invoice_number (trip_invoice trip_id tenant usr year now due nid c ss d) =
     invoice_number_for year (count_documents (\<lambda>i. i_tenant_id i = tenant) (invoices d))"
  by (simp_all add: trip_invoice_def Let_def)

lemma invoice_report_number:
  "ci_invoice_number (invoice_report year tenant c ss d) =
     invoice_number_for year (count_documents (\<lambda>i. i_tenant_id i = tenant) (invoices d))"
  by (simp add: invoice_report_def Let_def)

text \<open>What a run of the loop that ends without an exception has done: it appended
  invoices of the tenant to the store, one per line appended to the report, numbered by
  the count of the tenant's invoices at the time, and touched nothing else.\<close>

lemma invoice_groups_Inr:
  assumes "invoice_groups trip_id tenant usr year now due uuids gs created d = (Inr out, d')"
  shows "\<exists>new_invs new_reports.
           d' = d\<lparr>invoices := invoices d @ new_invs\<rparr> \<and> out = created @ new_reports \<and>
           length new_invs = length new_reports \<and>
           (\<forall>k < length new_reports.
              ci_invoice_number (new_reports ! k) =
                invoice_number_for year
                  (count_documents (\<lambda>i. i_tenant_id i = tenant) (invoices d) + k) \<and>
              i_invoice_number (new_invs ! k) = ci_invoice_number (new_reports ! k) \<and>
              i_tenant_id (new_invs ! k) = tenant)"
  using assms
proof (induction gs arbitrary: created d)
  case Nil
  then have "d' = d\<lparr>invoices := invoices d @ []\<rparr> \<and> out = created @ []" by simp
  then show ?case by (intro exI [where x = "[]"]) simp
next
  case (Cons g gs)
  obtain c ss where g: "g = (c, ss)" by (cases g)
  show ?case
  proof (cases "find_one (invoice_covers tenant c (map s_id ss)) (invoices d) \<noteq> None")
    case True
    with Cons.prems have "invoice_groups trip_id tenant usr year now due uuids gs created d = (Inr out, d')"
      by (simp add: g)
    then show ?thesis by (rule Cons.IH)
  next
    case False
    let ?inv = "trip_invoice trip_id tenant usr year now due (uuids (length created)) c ss d"
    let ?rep = "invoice_report year tenant c ss d"
    let ?d1 = "d\<lparr>invoices := insert_one ?inv (invoices d)\<rparr>"
    let ?n = "count_documents (\<lambda>i. i_tenant_id i = tenant) (invoices d)"
    from False Cons.prems
    have r: "invoice_groups trip_id tenant usr year now due uuids gs (created @ [?rep]) ?d1 = (Inr out, d')"
      by (simp add: g Let_def split: if_splits)
    from Cons.IH [OF r] obtain ni nr where
      1: "d' = ?d1\<lparr>invoices := invoices ?d1 @ ni\<rparr>" and 2: "out = (created @ [?rep]) @ nr"
      and 3: "length ni = length nr"
      and 4: "\<forall>k < length nr.
              ci_invoice_number (nr ! k) =
                invoice_number_for year
                  (count_documents (\<lambda>i. i_tenant_id i = tenant) (invoices ?d1) + k) \<and>
              i_invoice_number (ni ! k) = ci_invoice_number (nr ! k) \<and>
              i_tenant_id (ni ! k) = tenant"
      by blast
    have cnt: "count_documents (\<lambda>i. i_tenant_id i = tenant) (invoices ?d1) = Suc ?n"
      by (simp add: count_documents_def insert_one_def trip_invoice_fields)
    have a: "d' = d\<lparr>invoices := invoices d @ (?inv # ni)\<rparr>"
      using 1 by (simp add: insert_one_def)
    have b: "out = created @ (?rep # nr)" using 2 by simp
    have c: "length (?inv # ni) = length (?rep # nr)" using 3 by simp
    have e: "\<forall>k < length (?rep # nr).
              ci_invoice_number ((?rep # nr) ! k) = invoice_number_for year (?n + k) \<and>
              i_invoice_number ((?inv # ni) ! k) = ci_invoice_number ((?rep # nr) ! k) \<and>
              i_tenant_id ((?inv # ni) ! k) = tenant"
    proof (intro allI impI)
      fix k assume k: "k < length (?rep # nr)"
      show "ci_invoice_number ((?rep # nr) ! k) = invoice_number_for year (?n + k) \<and>
              i_invoice_number ((?inv # ni) ! k) = ci_invoice_number ((?rep # nr) ! k) \<and>
              i_tenant_id ((?inv # ni) ! k) = tenant"
      proof (cases k)
        case 0
        then show ?thesis by (simp add: trip_invoice_fields invoice_report_number)
      next
        case (Suc j)
        with k have "j < length nr" by simp
        with 4 cnt Suc show ?thesis by simp
      qed
    qed
    from a b c e show ?thesis by blast
  qed
qed

lemma generate_success:
  assumes "generate_trip_invoices trip_id tenant usr year now due uuids d = (Inr created, d')"
  shows "find_one (trip_query trip_id tenant) (trips d) \<noteq> None"
    and "invoice_groups trip_id tenant usr year now due uuids
           (group_by_client (trip_parcels trip_id tenant d)) [] d = (Inr created, d')"
  using assms by (auto simp: generate_trip_invoices_def split: option.splits)

text \<open>
  C8, as amended. Every invoice that \<^verbatim>\<open>generate_trip_invoices\<close> creates, in the order
  of creation, has the number \<^verbatim>\<open>INV-{year}-{N}\<close> with \<open>N\<close> padded with zeros to four
  digits, where \<open>N\<close> is one more than the number of invoices the tenant has at that
  moment, of whatever year: the count before the call plus the invoices the call has
  created so far. The invoices are appended to the store under these numbers.
\<close>

theorem trip_invoice_numbers:
  assumes "generate_trip_invoices trip_id tenant usr year now due uuids d = (Inr created, d')"
  shows "(\<forall>k < length created.
            ci_invoice_number (created ! k) =
              ''INV-'' @ str_nat year @ ''-'' @
              zfill 4 (str_nat
                (count_documents (\<lambda>i. i_tenant_id i = tenant) (invoices d) + k + 1))) \<and>
         (\<exists>new_invs. invoices d' = invoices d @ new_invs \<and>
            map i_invoice_number new_invs = map ci_invoice_number created \<and>
            (\<forall>i \<in> set new_invs. i_tenant_id i = tenant))"
proof -
  from invoice_groups_Inr [OF generate_success(2) [OF assms]] obtain ni nr where
    1: "d' = d\<lparr>invoices := invoices d @ ni\<rparr>" and 2: "created = [] @ nr"
    and 3: "length ni = length nr"
    and 4: "\<forall>k < length nr.
              ci_invoice_number (nr ! k) =
                invoice_number_for year
                  (count_documents (\<lambda>i. i_tenant_id i = tenant) (invoices d) + k) \<and>
              i_invoice_number (ni ! k) = ci_invoice_number (nr ! k) \<and>
              i_tenant_id (ni ! k) = tenant"
    by blast
  have c: "created = nr" using 2 by simp
  have a: "\<forall>k < length created.
            ci_invoice_number (created ! k) =
              ''INV-'' @ str_nat year @ ''-'' @
              zfill 4 (str_nat
                (count_documents (\<lambda>i. i_tenant_id i = tenant) (invoices d) + k + 1))"
    using 4 unfolding c invoice_number_for_def by simp
  have "invoices d' = invoices d @ ni" using 1 by simp
  moreover have "map i_invoice_number ni = map ci_invoice_number created"
    unfolding c using 3 4 by (intro nth_equalityI) simp_all
  moreover have "\<forall>i \<in> set ni. i_tenant_id i = tenant"
    using 3 4 by (auto simp: in_set_conv_nth)
  ultimately show ?thesis using a by blast
qed

lemma add_parcel_nonempty:
  assumes "\<forall>g \<in> set acc. snd g \<noteq> []"
  shows "\<forall>g \<in> set (add_parcel acc p). snd g \<noteq> []"
  using assms by (fastforce simp: add_parcel_def split: option.splits if_splits)

lemma foldl_add_parcel_nonempty:
  "\<forall>g \<in> set acc. snd g \<noteq> [] \<Longrightarrow> \<forall>g \<in> set (foldl add_parcel acc ps). snd g \<noteq> []"
proof (induction ps arbitrary: acc)
  case Nil
  then show ?case by simp
next
  case (Cons p ps)
  from add_parcel_nonempty [OF Cons.prems, of p]
  have "\<forall>g \<in> set (foldl add_parcel (add_parcel acc p) ps). snd g \<noteq> []"
    by (rule Cons.IH)
  then show ?case by simp
qed

lemma group_by_client_nonempty: "\<forall>g \<in> set (group_by_client ps). snd g \<noteq> []"
  unfolding group_by_client_def by (rule foldl_add_parcel_nonempty) simp

lemma trip_invoice_covers:
  "ss \<noteq> [] \<Longrightarrow>
   invoice_covers tenant c (map s_id ss) (trip_invoice trip_id tenant usr year now due nid c ss d)"
  by (simp add: invoice_covers_def trip_invoice_fields list_all_iff)

lemma find_one_not_None_iff: "find_one q xs \<noteq> None \<longleftrightarrow> (\<exists>x \<in> set xs. q x)"
  by (auto simp: find_one_def find_None_iff)

lemma invoice_groups_covered:
  assumes "invoice_groups trip_id tenant usr year now due uuids gs created d = (Inr out, d')"
    and "\<forall>g \<in> set gs. snd g \<noteq> []"
  shows "\<forall>g \<in> set gs. find_one (invoice_covers tenant (fst g) (map s_id (snd g))) (invoices d')
           \<noteq> None"
  using assms
proof (induction gs arbitrary: created d)
  case Nil
  then show ?case by simp
next
  case (Cons g gs)
  obtain c ss where g: "g = (c, ss)" by (cases g)
  have ne: "ss \<noteq> []" and rest: "\<forall>g \<in> set gs. snd g \<noteq> []"
    using Cons.prems(2) g by simp_all
  show ?case
  proof (cases "find_one (invoice_covers tenant c (map s_id ss)) (invoices d) \<noteq> None")
    case True
    with Cons.prems(1) have r: "invoice_groups trip_id tenant usr year now due uuids gs created d = (Inr out, d')"
      by (simp add: g)
    from invoice_groups_Inr [OF r] obtain ni where "invoices d' = invoices d @ ni"
      by auto
    with True have "find_one (invoice_covers tenant c (map s_id ss)) (invoices d') \<noteq> None"
      by (simp add: find_one_append_not_None)
    with Cons.IH [OF r rest] show ?thesis by (simp add: g)
  next
    case False
    let ?inv = "trip_invoice trip_id tenant usr year now due (uuids (length created)) c ss d"
    let ?rep = "invoice_report year tenant c ss d"
    let ?d1 = "d\<lparr>invoices := insert_one ?inv (invoices d)\<rparr>"
    from False Cons.prems(1)
    have r: "invoice_groups trip_id tenant usr year now due uuids gs (created @ [?rep]) ?d1 = (Inr out, d')"
      by (simp add: g Let_def split: if_splits)
    from invoice_groups_Inr [OF r] obtain ni where i: "invoices d' = invoices ?d1 @ ni"
      by auto
    have "find_one (invoice_covers tenant c (map s_id ss)) (invoices ?d1) \<noteq> None"
      unfolding find_one_not_None_iff
      using trip_invoice_covers [OF ne, of tenant c trip_id usr year now due "uuids (length created)" d]
      by (simp add: insert_one_def)
    then have "find_one (invoice_covers tenant c (map s_id ss)) (invoices d') \<noteq> None"
      unfolding i by (rule find_one_append_not_None)
    with Cons.IH [OF r rest] show ?thesis by (simp add: g)
  qed
qed

lemma invoice_groups_all_covered:
  assumes "\<forall>g \<in> set gs. find_one (invoice_covers tenant (fst g) (map s_id (snd g))) (invoices d)
             \<noteq> None"
  shows "invoice_groups trip_id tenant usr year now due uuids gs created d = (Inr created, d)"
  using assms
proof (induction gs)
  case Nil
  then show ?case by simp
next
  case (Cons g gs)
  obtain c ss where g: "g = (c, ss)" by (cases g)
  from Cons.prems have "find_one (invoice_covers tenant c (map s_id ss)) (invoices d) \<noteq> None"
    by (simp add: g)
  moreover have "invoice_groups trip_id tenant usr year now due uuids gs created d = (Inr created, d)"
    using Cons.prems by (intro Cons.IH) simp
  ultimately show ?case by (simp add: g)
qed

text \<open>
  C5, as amended. After a call of \<^verbatim>\<open>generate_trip_invoices\<close> that returned, a second
  call on the store it left, whatever the user, the time and the identifiers drawn,
  creates no invoice and leaves the store as it is: for every client group of the trip an
  invoice of the tenant and the client exists whose \<^verbatim>\<open>shipment_ids\<close> hold every
  shipment of the group (they may hold more).
\<close>

theorem generate_twice:
  assumes "generate_trip_invoices trip_id tenant usr year now due uuids d = (Inr created, d1)"
  shows "generate_trip_invoices trip_id tenant usr' year' now' due' uuids' d1 = (Inr [], d1) \<and>
         (\<forall>g \<in> set (group_by_client (trip_parcels trip_id tenant d1)).
            \<exists>i \<in> set (invoices d1).
              i_tenant_id i = tenant \<and> i_client_id i = fst g \<and>
              set (map s_id (snd g)) \<subseteq> set (i_shipment_ids i))"
proof -
  note s = generate_success [OF assms]
  from invoice_groups_Inr [OF s(2)] obtain ni where d1: "d1 = d\<lparr>invoices := invoices d @ ni\<rparr>"
    by auto
  have p: "trip_parcels trip_id tenant d1 = trip_parcels trip_id tenant d"
    and t: "trips d1 = trips d"
    by (simp_all add: d1 trip_parcels_def)
  let ?gs = "group_by_client (trip_parcels trip_id tenant d)"
  have cov: "\<forall>g \<in> set ?gs. find_one (invoice_covers tenant (fst g) (map s_id (snd g))) (invoices d1)
           \<noteq> None"
    using s(2) group_by_client_nonempty by (rule invoice_groups_covered)
  have "invoice_groups trip_id tenant usr' year' now' due' uuids' ?gs [] d1 = (Inr [], d1)"
    using cov by (rule invoice_groups_all_covered)
  then have a: "generate_trip_invoices trip_id tenant usr' year' now' due' uuids' d1 = (Inr [], d1)"
    using s(1) by (auto simp: generate_trip_invoices_def p t split: option.splits)
  have b: "\<forall>g \<in> set (group_by_client (trip_parcels trip_id tenant d1)).
            \<exists>i \<in> set (invoices d1).
              i_tenant_id i = tenant \<and> i_client_id i = fst g \<and>
              set (map s_id (snd g)) \<subseteq> set (i_shipment_ids i)"
  proof
    fix g assume "g \<in> set (group_by_client (trip_parcels trip_id tenant d1))"
    then have "g \<in> set ?gs" by (simp add: p)
    with cov have "find_one (invoice_covers tenant (fst g) (map s_id (snd g))) (invoices d1)
           \<noteq> None" by blast
    then obtain i where "i \<in> set (invoices d1)"
      and "invoice_covers tenant (fst g) (map s_id (snd g)) i"
      unfolding find_one_not_None_iff by blast
    then show "\<exists>i \<in> set (invoices d1).
              i_tenant_id i = tenant \<and> i_client_id i = fst g \<and>
              set (map s_id (snd g)) \<subseteq> set (i_shipment_ids i)"
      by (auto simp: invoice_covers_def list_all_iff)
  qed
  from a b show ?thesis by (rule conjI)
qed

lemma ex_str_nat: "str_nat 2025 = ''2025''" "str_nat (Suc 0) = ''1''" "str_nat 1 = ''1''"
  "str_nat 2 = ''2''" "str_nat (Suc (Suc 0)) = ''2''"
  by (simp_all add: string_digits_def)

lemma replicate_small:
  "replicate 3 c = [c, c, c]" "replicate 2 c = [c, c]" "replicate 1 c = [c]"
  by (simp_all add: numeral_3_eq_3 numeral_2_eq_2)

lemma ex_invoice_numbers:
  "invoice_number_for 2025 0 = ''INV-2025-0001''"
  "invoice_number_for 2025 (Suc 0) = ''INV-2025-0002''"
  by (simp_all add: invoice_number_for_def ex_str_nat zfill_def replicate_small
      del: str_nat.simps)

lemma ex_round2: "round2 500 = 500" "round2 75 = 75" "round2 575 = 575"
  by (simp_all add: round2_def)

lemma ex_parcels_T1:
  "group_by_client (trip_parcels ''T1'' ''ten'' (ex_db\<lparr>invoices := is\<rparr>)) = [(''C1'', [ex_shipment])]"
  by (simp add: group_by_client_def trip_parcels_def to_list_def add_parcel_def ex_defs)

lemma ex_find_T1_any:
  "find_one (trip_query ''T1'' ''ten'') (trips (ex_db\<lparr>invoices := is\<rparr>)) = Some ex_trip"
  by (simp add: find_one_def trip_query_def ex_defs)

lemma ex_subtotal: "group_subtotal ''C1'' [ex_shipment] (ex_db\<lparr>invoices := is\<rparr>) = 500"
  by (simp add: group_subtotal_def find_one_def ex_defs)

lemma ex_generate_any:
  assumes "find_one (invoice_covers ''ten'' ''C1'' [''SH1'']) is = None"
    and "\<not> list_ex (\<lambda>i. i_tenant_id i = ''ten'' \<and>
           i_invoice_number i =
             invoice_number_for 2025 (count_documents (\<lambda>i. i_tenant_id i = ''ten'') is)) is"
  shows "generate_trip_invoices ''T1'' ''ten'' ex_owner 2025 ''2025-06-10T09:00:00+00:00''
       ''2025-07-10T09:00:00+00:00'' ex_uuids (ex_db\<lparr>invoices := is\<rparr>) =
     (Inr [\<lparr>ci_invoice_number =
              invoice_number_for 2025 (count_documents (\<lambda>i. i_tenant_id i = ''ten'') is),
            ci_client_name = ''Acme'', ci_total = 575\<rparr>],
      ex_db\<lparr>invoices := is @
        [ex_invoice\<lparr>i_invoice_number :=
           invoice_number_for 2025 (count_documents (\<lambda>i. i_tenant_id i = ''ten'') is)\<rparr>]\<rparr>)"
proof -
  have s: "s_id ex_shipment = ''SH1''" by (simp add: ex_shipment_def)
  have c: "find_one (\<lambda>c. c_id c = ''C1'') (clients ex_db) =
             Some \<lparr>c_id = ''C1'', c_tenant_id = ''ten'', c_name = ''Acme''\<rparr>"
    by (simp add: find_one_def ex_db_def)
  have inv: "trip_invoice ''T1'' ''ten'' ex_owner 2025 ''2025-06-10T09:00:00+00:00''
       ''2025-07-10T09:00:00+00:00'' (ex_uuids 0) ''C1'' [ex_shipment] (ex_db\<lparr>invoices := is\<rparr>) =
       ex_invoice\<lparr>i_invoice_number :=
           invoice_number_for 2025 (count_documents (\<lambda>i. i_tenant_id i = ''ten'') is)\<rparr>"
    by (simp add: trip_invoice_def Let_def ex_subtotal ex_round2 s ex_invoice_def ex_uuids_def
        ex_str_nat ex_owner_def del: str_nat.simps)
  have rep: "invoice_report 2025 ''ten'' ''C1'' [ex_shipment] (ex_db\<lparr>invoices := is\<rparr>) =
       \<lparr>ci_invoice_number =
              invoice_number_for 2025 (count_documents (\<lambda>i. i_tenant_id i = ''ten'') is),
            ci_client_name = ''Acme'', ci_total = 575\<rparr>"
    by (simp add: invoice_report_def Let_def ex_subtotal c)
  show ?thesis
    unfolding generate_trip_invoices_def ex_find_T1_any ex_parcels_T1 option.case
    using assms
    by (simp add: s inv rep insert_one_def del: str_nat.simps)
qed

lemma ex_generate:
  "generate_trip_invoices ''T1'' ''ten'' ex_owner 2025 ''2025-06-10T09:00:00+00:00''
       ''2025-07-10T09:00:00+00:00'' ex_uuids ex_db =
     (Inr [\<lparr>ci_invoice_number = ''INV-2025-0001'', ci_client_name = ''Acme'', ci_total = 575\<rparr>],
      ex_db\<lparr>invoices := [ex_invoice]\<rparr>)"
proof -
  have e: "ex_db = ex_db\<lparr>invoices := []\<rparr>" by (simp add: ex_db_def)
  have "generate_trip_invoices ''T1'' ''ten'' ex_owner 2025 ''2025-06-10T09:00:00+00:00''
       ''2025-07-10T09:00:00+00:00'' ex_uuids (ex_db\<lparr>invoices := []\<rparr>) =
     (Inr [\<lparr>ci_invoice_number = ''INV-2025-0001'', ci_client_name = ''Acme'', ci_total = 575\<rparr>],
      ex_db\<lparr>invoices := [ex_invoice]\<rparr>)"
    using ex_generate_any [of "[]"]
    by (simp add: find_one_def count_documents_def ex_invoice_numbers ex_invoice_def
        del: str_nat.simps)
  then show ?thesis using e by simp
qed

lemma ex_generate_old:
  "generate_trip_invoices ''T1'' ''ten'' ex_owner 2025 ''2025-06-10T09:00:00+00:00''
       ''2025-07-10T09:00:00+00:00'' ex_uuids (ex_db\<lparr>invoices := [ex_old_invoice]\<rparr>) =
     (Inr [\<lparr>ci_invoice_number = ''INV-2025-0002'', ci_client_name = ''Acme'', ci_total = 575\<rparr>],
      ex_db\<lparr>invoices := [ex_old_invoice, ex_invoice\<lparr>i_invoice_number := ''INV-2025-0002''\<rparr>]\<rparr>)"
  using ex_generate_any [of "[ex_old_invoice]"]
  by (simp add: find_one_def count_documents_def ex_invoice_numbers ex_invoice_def
      ex_old_invoice_def invoice_covers_def del: str_nat.simps)

lemma ex_generate_wide:
  "generate_trip_invoices ''T1'' ''ten'' ex_owner 2025 ''2025-06-10T09:00:00+00:00''
       ''2025-07-10T09:00:00+00:00'' ex_uuids (ex_db\<lparr>invoices := [ex_wide_invoice]\<rparr>) =
     (Inr [], ex_db\<lparr>invoices := [ex_wide_invoice]\<rparr>)"
  unfolding generate_trip_invoices_def ex_find_T1_any ex_parcels_T1 option.case
  by (simp add: find_one_def invoice_covers_def ex_wide_invoice_def ex_invoice_def ex_shipment_def)

theorem trip_invoice_numbers_witness:
  "generate_trip_invoices ''T1'' ''ten'' ex_owner 2025 ''2025-06-10T09:00:00+00:00''
       ''2025-07-10T09:00:00+00:00'' ex_uuids (ex_db\<lparr>invoices := [ex_old_invoice]\<rparr>) =
     (Inr [\<lparr>ci_invoice_number = ''INV-2025-0002'', ci_client_name = ''Acme'', ci_total = 575\<rparr>],
      ex_db\<lparr>invoices := [ex_old_invoice, ex_invoice\<lparr>i_invoice_number := ''INV-2025-0002''\<rparr>]\<rparr>) \<and>
   count_documents (\<lambda>i. i_tenant_id i = ''ten'') [ex_old_invoice] = 1 \<and>
   ''INV-2025-0002'' = ''INV-'' @ str_nat 2025 @ ''-'' @ zfill 4 (str_nat (1 + 0 + 1))"
proof -
  have c: "count_documents (\<lambda>i. i_tenant_id i = ''ten'') [ex_old_invoice] = 1"
    by (simp add: count_documents_def ex_old_invoice_def ex_invoice_def)
  from trip_invoice_numbers [OF ex_generate_old]
  have "''INV-2025-0002'' = ''INV-'' @ str_nat 2025 @ ''-'' @ zfill 4 (str_nat (1 + 0 + 1))"
    by (simp add: c del: str_nat.simps)
  with ex_generate_old c show ?thesis by blast
qed

text \<open>
  The claim as stated fails when the tenant has an invoice of an earlier year: with one
  invoice of 2024 and none of 2025, the invoice generated in 2025 is numbered
  \<^verbatim>\<open>INV-2025-0002\<close>, not \<^verbatim>\<open>INV-2025-0001\<close>.
\<close>

theorem trip_invoice_numbers_counterexample:
  "generate_trip_invoices ''T1'' ''ten'' ex_owner 2025 ''2025-06-10T09:00:00+00:00''
       ''2025-07-10T09:00:00+00:00'' ex_uuids (ex_db\<lparr>invoices := [ex_old_invoice]\<rparr>) =
     (Inr [\<lparr>ci_invoice_number = ''INV-2025-0002'', ci_client_name = ''Acme'', ci_total = 575\<rparr>],
      ex_db\<lparr>invoices := [ex_old_invoice, ex_invoice\<lparr>i_invoice_number := ''INV-2025-0002''\<rparr>]\<rparr>) \<and>
   count_documents (\<lambda>i. i_tenant_id i = ''ten'' \<and> take 9 (i_invoice_number i) = ''INV-2025-'')
     [ex_old_invoice] = 0 \<and>
   count_documents (\<lambda>i. i_tenant_id i = ''ten'' \<and> take 4 (i_created_at i) = ''2025'')
     [ex_old_invoice] = 0 \<and>
   ''INV-2025-0002'' \<noteq> ''INV-'' @ str_nat 2025 @ ''-'' @ zfill 4 (str_nat (0 + 1))"
proof -
  have "''INV-'' @ str_nat 2025 @ ''-'' @ zfill 4 (str_nat (0 + 1)) = ''INV-2025-0001''"
    using ex_invoice_numbers(1) by (simp add: invoice_number_for_def del: str_nat.simps)
  then have "''INV-2025-0002'' \<noteq> ''INV-'' @ str_nat 2025 @ ''-'' @ zfill 4 (str_nat (0 + 1))"
    by (simp del: str_nat.simps)
  moreover have "count_documents (\<lambda>i. i_tenant_id i = ''ten'' \<and> take 9 (i_invoice_number i) = ''INV-2025-'')
     [ex_old_invoice] = 0"
    and "count_documents (\<lambda>i. i_tenant_id i = ''ten'' \<and> take 4 (i_created_at i) = ''2025'')
     [ex_old_invoice] = 0"
    by (simp_all add: count_documents_def ex_old_invoice_def ex_invoice_def)
  ultimately show ?thesis using ex_generate_old by blast
qed

theorem generate_twice_witness:
  "generate_trip_invoices ''T1'' ''ten'' ex_owner 2025 ''2025-06-10T09:00:00+00:00''
       ''2025-07-10T09:00:00+00:00'' ex_uuids ex_db =
     (Inr [\<lparr>ci_invoice_number = ''INV-2025-0001'', ci_client_name = ''Acme'', ci_total = 575\<rparr>],
      ex_db\<lparr>invoices := [ex_invoice]\<rparr>) \<and>
   generate_trip_invoices ''T1'' ''ten'' ex_manager 2026 ''2026-01-02T09:00:00+00:00''
       ''2026-02-01T09:00:00+00:00'' ex_uuids (ex_db\<lparr>invoices := [ex_invoice]\<rparr>) =
     (Inr [], ex_db\<lparr>invoices := [ex_invoice]\<rparr>)"
  using generate_twice [OF ex_generate, of ex_manager 2026 "''2026-01-02T09:00:00+00:00''"
      "''2026-02-01T09:00:00+00:00''" ex_uuids] ex_generate
  by blast

text \<open>
  The reason the claim gives fails: with an invoice of the client that covers \<open>SH1\<close> and
  \<open>SH2\<close>, the group \<open>[SH1]\<close> of trip \<open>T1\<close> is skipped, on the first call and on the
  second, though no invoice has exactly the shipments of the group.
\<close>

theorem generate_twice_counterexample:
  "generate_trip_invoices ''T1'' ''ten'' ex_owner 2025 ''2025-06-10T09:00:00+00:00''
       ''2025-07-10T09:00:00+00:00'' ex_uuids (ex_db\<lparr>invoices := [ex_wide_invoice]\<rparr>) =
     (Inr [], ex_db\<lparr>invoices := [ex_wide_invoice]\<rparr>) \<and>
   group_by_client (trip_parcels ''T1'' ''ten'' (ex_db\<lparr>invoices := [ex_wide_invoice]\<rparr>)) =
     [(''C1'', [ex_shipment])] \<and>
   map s_id [ex_shipment] = [''SH1''] \<and>
   \<not> list_ex (\<lambda>i. set (i_shipment_ids i) = set [''SH1''])
       (invoices (ex_db\<lparr>invoices := [ex_wide_invoice]\<rparr>))"
proof -
  have "\<not> list_ex (\<lambda>i. set (i_shipment_ids i) = set [''SH1''])
       (invoices (ex_db\<lparr>invoices := [ex_wide_invoice]\<rparr>))"
    by (simp add: ex_wide_invoice_def ex_invoice_def)
  moreover have "map s_id [ex_shipment] = [''SH1'']" by (simp add: ex_shipment_def)
  ultimately show ?thesis using ex_generate_wide ex_parcels_T1 [of "[ex_wide_invoice]"] by blast
qed


section \<open>Invoice totals\<close>












lemma ex_take_small:
  fixes xs :: "invoice_line_item list"
  shows "n < 100 \<Longrightarrow> take 100 (map ex_line [0..<n] @ xs) = map ex_line [0..<n] @ take (100 - n) xs"
  by simp













end
